theory Spec2Isabelle
  imports Complex_Main "HOL-Library.Multiset" "HOL-Library.Sublist"
begin

section \<open>splat2mc: the conversion pipeline of converter.py\<close>

text \<open>
  The pipeline of \<^verbatim>\<open>src/splat2mc/converter.py\<close> is embedded function by function:
  \<^verbatim>\<open>load_ply\<close>, \<^verbatim>\<open>normalize_splats\<close>, \<^verbatim>\<open>downsample_splats\<close> and
  \<^verbatim>\<open>generate_mcfunction\<close>.

  Numbers. A Python \<^verbatim>\<open>float\<close> is modelled as a \<^typ>\<open>real\<close>: arithmetic is exact, and
  the infinities, signed zero and rounding are outside the model. The splats that
  \<^verbatim>\<open>normalize_splats\<close>, \<^verbatim>\<open>downsample_splats\<close> and \<^verbatim>\<open>generate_mcfunction\<close> work on are
  those of the data model and have real fields. The fields of a PLY file are raw: a float
  field can hold NaN, so \<^verbatim>\<open>load_ply\<close> is modelled on values that are a number or NaN,
  with numpy's rule that an operation on NaN gives NaN and a comparison with NaN is
  false. \<^verbatim>\<open>max_count\<close> is a Python \<^verbatim>\<open>int\<close> and is modelled as \<^typ>\<open>int\<close>, negative values
  included.

  Errors. Every exception the modelled code can raise is a value of \<open>error\<close>, and a
  function that can raise returns \<open>error + 'a\<close> with \<open>Inl\<close> for the exception.
\<close>

subsection \<open>Data model\<close>

text \<open>The dataclass \<^verbatim>\<open>GaussianSplat\<close>; the fields x, y, z, r, g, b, opacity and scale
  carry the prefix \<open>splat_\<close>. The type \<open>'f\<close> of the fields is \<^typ>\<open>real\<close> for the splats of
  the data model, which the stages after decoding work on, and \<open>npfloat\<close> (a number or
  NaN, below) for what \<^verbatim>\<open>load_ply\<close> builds from the fields of a file.\<close>

record 'f GaussianSplat =
  splat_x :: 'f
  splat_y :: 'f
  splat_z :: 'f
  splat_r :: 'f
  splat_g :: 'f
  splat_b :: 'f
  splat_opacity :: 'f
  splat_scale :: 'f

text \<open>The exceptions of the Python runtime and of numpy that the modelled code can meet.\<close>

datatype error = ValueError | IndexError | ZeroDivisionError

text \<open>Sequencing of fallible steps: the first exception ends the computation.\<close>

definition ebind :: "error + 'a \<Rightarrow> ('a \<Rightarrow> error + 'b) \<Rightarrow> error + 'b" where
  "ebind m f = (case m of Inl e \<Rightarrow> Inl e | Inr v \<Rightarrow> f v)"

subsection \<open>Python built-ins used by the pipeline\<close>

text \<open>\<^verbatim>\<open>min(xs)\<close> and \<^verbatim>\<open>max(xs)\<close>: a left-to-right scan, ValueError on an empty
  sequence.\<close>

definition py_min :: "real list \<Rightarrow> error + real" where
  "py_min xs = (case xs of [] \<Rightarrow> Inl ValueError | y # ys \<Rightarrow> Inr (fold (\<lambda>v m. if v < m then v else m) ys y))"

definition py_max :: "real list \<Rightarrow> error + real" where
  "py_max xs = (case xs of [] \<Rightarrow> Inl ValueError | y # ys \<Rightarrow> Inr (fold (\<lambda>v m. if v > m then v else m) ys y))"

text \<open>\<^verbatim>\<open>a / b\<close> on floats raises ZeroDivisionError when the divisor is zero.\<close>

definition py_truediv :: "real \<Rightarrow> real \<Rightarrow> error + real" where
  "py_truediv a b = (if b = 0 then Inl ZeroDivisionError else Inr (a / b))"

text \<open>\<^verbatim>\<open>a or b\<close> on numbers: \<^verbatim>\<open>a\<close> when it is truthy (non-zero), else \<^verbatim>\<open>b\<close>.\<close>

definition py_or :: "real \<Rightarrow> real \<Rightarrow> real" where
  "py_or a b = (if a \<noteq> 0 then a else b)"

text \<open>Clamping as the specification writes it, \<open>clamp(w, lo, hi)\<close>; the code composes
  \<^verbatim>\<open>max\<close> and \<^verbatim>\<open>min\<close> (and \<^verbatim>\<open>np.clip\<close>) instead.\<close>

definition spec_clamp :: "real \<Rightarrow> real \<Rightarrow> real \<Rightarrow> real" where
  "spec_clamp w lo hi = (if w < lo then lo else if hi < w then hi else w)"

text \<open>\<^verbatim>\<open>sorted(xs, key=key, reverse=reverse)\<close>. The sort is stable; with
  \<^verbatim>\<open>reverse=True\<close> the list is reversed, sorted stably in ascending order and reversed
  again, which is how the runtime keeps equal keys in their original order.\<close>

definition py_sorted :: "('a \<Rightarrow> real) \<Rightarrow> bool \<Rightarrow> 'a list \<Rightarrow> 'a list" where
  "py_sorted key reverse xs =
     (if reverse then rev (sort_key key (rev xs)) else sort_key key xs)"

text \<open>The slice \<^verbatim>\<open>xs[:k]\<close>: the first \<open>k\<close> elements, and for a negative \<open>k\<close> all but
  the last \<open>-k\<close>.\<close>

definition py_slice_to :: "'a list \<Rightarrow> int \<Rightarrow> 'a list" where
  "py_slice_to xs k = (if 0 \<le> k then take (nat k) xs else take (nat (int (length xs) + k)) xs)"

text \<open>\<^verbatim>\<open>xs[i]\<close> for an index array of numpy: the indices are non-negative, and one
  past the end raises IndexError.\<close>

definition py_getitem :: "'a list \<Rightarrow> nat \<Rightarrow> error + 'a" where
  "py_getitem xs i = (if i < length xs then Inr (xs ! i) else Inl IndexError)"

text \<open>A list comprehension whose element expression can raise.\<close>

fun emap :: "('a \<Rightarrow> error + 'b) \<Rightarrow> 'a list \<Rightarrow> error + 'b list" where
  "emap f [] = Inr []"
| "emap f (a # as) = ebind (f a) (\<lambda>b. ebind (emap f as) (\<lambda>bs. Inr (b # bs)))"

subsection \<open>Selector: \<^verbatim>\<open>downsample_splats\<close>\<close>

text \<open>
  \<^verbatim>\<open>np.random.choice(n, k, replace=False)\<close> is a call into numpy's global generator.
  The drawing is the parameter \<open>choice\<close>: \<open>choice n k\<close> is what the call returns
  (an array of indices) or raises in the run under consideration.
\<close>

definition downsample_splats ::
  "(nat \<Rightarrow> int \<Rightarrow> error + nat list) \<Rightarrow> real GaussianSplat list \<Rightarrow> int \<Rightarrow> string \<Rightarrow> error + real GaussianSplat list"
where
  "downsample_splats choice splats max_count method =
     (if int (length splats) \<le> max_count then Inr splats
      else if method = ''opacity'' then
        (let sorted_splats = py_sorted splat_opacity True splats
         in Inr (py_slice_to sorted_splats max_count))
      else
        ebind (choice (length splats) max_count)
          (\<lambda>indices. emap (py_getitem splats) indices))"

subsection \<open>Normalizer: \<^verbatim>\<open>normalize_splats\<close>\<close>

definition normalize_splats :: "real GaussianSplat list \<Rightarrow> real \<Rightarrow> bool \<Rightarrow> error + real GaussianSplat list" where
  "normalize_splats splats target_size center =
     (if splats = [] then Inr splats
      else
        let xs = map splat_x splats; ys = map splat_y splats; zs = map splat_z splats in
        ebind (py_min xs) (\<lambda>min_x. ebind (py_max xs) (\<lambda>max_x.
        ebind (py_min ys) (\<lambda>min_y. ebind (py_max ys) (\<lambda>max_y.
        ebind (py_min zs) (\<lambda>min_z. ebind (py_max zs) (\<lambda>max_z.
        let range_x = py_or (max_x - min_x) 1;
            range_y = py_or (max_y - min_y) 1;
            range_z = py_or (max_z - min_z) 1;
            max_range = max (max range_x range_y) range_z
        in ebind (py_truediv target_size max_range) (\<lambda>scale_factor.
        let center_x = (if center then (min_x + max_x) / 2 else 0);
            center_y = (if center then (min_y + max_y) / 2 else 0);
            center_z = (if center then (min_z + max_z) / 2 else 0)
        in Inr (map (\<lambda>s. \<lparr> splat_x = (splat_x s - center_x) * scale_factor,
                              splat_y = (splat_y s - center_y) * scale_factor,
                              splat_z = (splat_z s - center_z) * scale_factor,
                              splat_r = splat_r s,
                              splat_g = splat_g s,
                              splat_b = splat_b s,
                              splat_opacity = splat_opacity s,
                              splat_scale = splat_scale s * scale_factor \<rparr>) splats)))))))))"

text \<open>The Normalizer in the words of the specification: the bounding box of the
  positions, a range of exactly zero replaced by 1, one scale factor for the three axes,
  the midpoint as centre when centering is on.\<close>

definition spec_range :: "real list \<Rightarrow> real" where
  "spec_range vs = (let d = Max (set vs) - Min (set vs) in if d = 0 then 1 else d)"

definition spec_scale_factor :: "real GaussianSplat list \<Rightarrow> real \<Rightarrow> real" where
  "spec_scale_factor splats target_extent =
     target_extent / Max {spec_range (map splat_x splats), spec_range (map splat_y splats),
                          spec_range (map splat_z splats)}"

definition spec_center :: "bool \<Rightarrow> real list \<Rightarrow> real" where
  "spec_center centering vs = (if centering then (Min (set vs) + Max (set vs)) / 2 else 0)"

definition spec_normalize_one :: "real GaussianSplat list \<Rightarrow> real \<Rightarrow> bool \<Rightarrow> real GaussianSplat \<Rightarrow> real GaussianSplat" where
  "spec_normalize_one splats target_extent centering s =
     s \<lparr> splat_x := (splat_x s - spec_center centering (map splat_x splats)) * spec_scale_factor splats target_extent,
         splat_y := (splat_y s - spec_center centering (map splat_y splats)) * spec_scale_factor splats target_extent,
         splat_z := (splat_z s - spec_center centering (map splat_z splats)) * spec_scale_factor splats target_extent,
         splat_scale := splat_scale s * spec_scale_factor splats target_extent \<rparr>"

subsection \<open>Number formatting\<close>

text \<open>
  \<^verbatim>\<open>f"{v:.3f}"\<close> and \<^verbatim>\<open>f"{v:.2f}"\<close>: fixed-point notation with \<open>p\<close> digits after the
  point, the value rounded to the nearest multiple of \<open>10^-p\<close> with ties to even, a
  leading minus sign for a negative value. \<^verbatim>\<open>f"{n}"\<close> of a non-negative int is its decimal
  numeral.
\<close>

definition digit_char :: "nat \<Rightarrow> char" where
  "digit_char d = ''0123456789'' ! (d mod 10)"

function str_nat :: "nat \<Rightarrow> string" where
  "str_nat n = (if n < 10 then [digit_char n] else str_nat (n div 10) @ [digit_char (n mod 10)])"
  by pat_completeness auto
termination
  by (relation "measure (\<lambda>n. n)") auto

declare str_nat.simps [simp del]

definition round_half_even :: "real \<Rightarrow> int" where
  "round_half_even v =
     (let f = \<lfloor>v\<rfloor>; d = v - of_int f
      in if d < 1 / 2 then f else if 1 / 2 < d then f + 1 else if even f then f else f + 1)"

definition zfill :: "nat \<Rightarrow> string \<Rightarrow> string" where
  "zfill w s = replicate (w - length s) (CHR ''0'') @ s"

definition py_format_f :: "nat \<Rightarrow> real \<Rightarrow> string" where
  "py_format_f p v =
     (let m = nat (round_half_even (\<bar>v\<bar> * 10 ^ p))
      in (if v < 0 then ''-'' else [])
         @ str_nat (m div 10 ^ p)
         @ (if p = 0 then [] else ''.'' @ zfill p (str_nat (m mod 10 ^ p))))"

text \<open>\<^verbatim>\<open>sep.join(lines)\<close>.\<close>

fun py_join :: "string \<Rightarrow> string list \<Rightarrow> string" where
  "py_join sep [] = []"
| "py_join sep [l] = l"
| "py_join sep (l # ls) = l @ sep @ py_join sep ls"

subsection \<open>Command Emitter: \<^verbatim>\<open>generate_mcfunction\<close>\<close>

text \<open>The local variables of the loop body, each as a function of the splat.\<close>

definition pos :: "bool \<Rightarrow> real GaussianSplat \<Rightarrow> string" where
  "pos relative s =
     (if relative then
        ''~'' @ py_format_f 3 (splat_x s) @ '' ~'' @ py_format_f 3 (splat_y s)
          @ '' ~'' @ py_format_f 3 (splat_z s)
      else
        py_format_f 3 (splat_x s) @ '' '' @ py_format_f 3 (splat_y s)
          @ '' '' @ py_format_f 3 (splat_z s))"

definition particle_scale :: "real GaussianSplat \<Rightarrow> real" where
  "particle_scale s = max 0.1 (min 4.0 (splat_scale s * 50))"

definition line :: "bool \<Rightarrow> real GaussianSplat \<Rightarrow> string" where
  "line relative s =
     (let r = max 0 (min 1 (splat_r s));
          g = max 0 (min 1 (splat_g s));
          b = max 0 (min 1 (splat_b s))
      in ''particle dust{color:['' @ py_format_f 3 r @ '','' @ py_format_f 3 g @ '',''
           @ py_format_f 3 b @ ''],scale:'' @ py_format_f 2 (particle_scale s) @ ''} ''
           @ pos relative s @ '' 0 0 0 0 1 force'')"

text \<open>The loop over the splats: what it appends to \<^verbatim>\<open>lines\<close>.\<close>

fun emit :: "bool \<Rightarrow> real \<Rightarrow> real GaussianSplat list \<Rightarrow> string list" where
  "emit relative min_opacity [] = []"
| "emit relative min_opacity (s # ss) =
     (if splat_opacity s < min_opacity then emit relative min_opacity ss
      else line relative s # emit relative min_opacity ss)"

definition lines :: "real GaussianSplat list \<Rightarrow> bool \<Rightarrow> real \<Rightarrow> string list" where
  "lines splats relative min_opacity =
     [''# Generated by splat2mc'',
      ''# '' @ str_nat (length splats) @ '' Gaussian splats'',
      []]
     @ emit relative min_opacity splats"

definition generate_mcfunction :: "real GaussianSplat list \<Rightarrow> bool \<Rightarrow> real \<Rightarrow> string" where
  "generate_mcfunction splats relative min_opacity =
     py_join [CHR 0x0A] (lines splats relative min_opacity)"

text \<open>Reading the output back: \<^verbatim>\<open>s.split(c)\<close> for a separator of one character, the
  lines of a text and the tokens of a command line.\<close>

fun split_acc :: "char \<Rightarrow> string \<Rightarrow> string \<Rightarrow> string list" where
  "split_acc c cur [] = [rev cur]"
| "split_acc c cur (d # ds) =
     (if d = c then rev cur # split_acc c [] ds else split_acc c (d # cur) ds)"

definition text_lines :: "string \<Rightarrow> string list" where
  "text_lines t = split_acc (CHR 0x0A) [] t"

definition tokens :: "string \<Rightarrow> string list" where
  "tokens l = split_acc (CHR '' '') [] l"

text \<open>A numeral part: decimal digits only.\<close>

definition decimal_digits :: "string \<Rightarrow> bool" where
  "decimal_digits s = (set s \<subseteq> set ''0123456789'')"

text \<open>The command line in the words of the specification, part by part: the
  particle-type token, the parameter block (three clamped colour channels with 3 decimal
  digits, the render-scale \<open>clamp(scale * 50, 0.1, 4.0)\<close> with 2), the position in offset
  or absolute notation, three zero velocity components, a spread value of 1 and the
  force token.\<close>

definition spec_position :: "bool \<Rightarrow> real GaussianSplat \<Rightarrow> string" where
  "spec_position relative s =
     (if relative then
        ''~'' @ py_format_f 3 (splat_x s) @ '' ~'' @ py_format_f 3 (splat_y s)
          @ '' ~'' @ py_format_f 3 (splat_z s)
      else
        py_format_f 3 (splat_x s) @ '' '' @ py_format_f 3 (splat_y s)
          @ '' '' @ py_format_f 3 (splat_z s))"

definition spec_parameter_block :: "real GaussianSplat \<Rightarrow> string" where
  "spec_parameter_block s =
     ''{color:['' @ py_format_f 3 (spec_clamp (splat_r s) 0 1) @ '',''
       @ py_format_f 3 (spec_clamp (splat_g s) 0 1) @ '',''
       @ py_format_f 3 (spec_clamp (splat_b s) 0 1)
       @ ''],scale:'' @ py_format_f 2 (spec_clamp (splat_scale s * 50) 0.1 4.0) @ ''}''"

definition spec_line :: "bool \<Rightarrow> real GaussianSplat \<Rightarrow> string" where
  "spec_line relative s =
     ''particle dust'' @ spec_parameter_block s @ '' '' @ spec_position relative s
       @ '' 0 0 0'' @ '' 1'' @ '' force''"

subsection \<open>Attribute Decoder: \<^verbatim>\<open>load_ply\<close>\<close>

text \<open>An element of a numpy float array, as read from a float field of the file: a
  number or NaN.\<close>

datatype npfloat = Val real | NaN

text \<open>An elementwise operation of numpy with one or with two array operands: on NaN the
  result is NaN. \<^verbatim>\<open>0.5 + a * C0\<close>, \<^verbatim>\<open>a / 255.0\<close>, \<^verbatim>\<open>np.exp(a)\<close>, \<^verbatim>\<open>1 / (1 + np.exp(-a))\<close>,
  \<^verbatim>\<open>a + b\<close> and \<^verbatim>\<open>np.clip\<close> are all of this kind.\<close>

fun np1 :: "(real \<Rightarrow> real) \<Rightarrow> npfloat \<Rightarrow> npfloat" where
  "np1 f (Val a) = Val (f a)"
| "np1 f NaN = NaN"

fun np2 :: "(real \<Rightarrow> real \<Rightarrow> real) \<Rightarrow> npfloat \<Rightarrow> npfloat \<Rightarrow> npfloat" where
  "np2 f (Val a) (Val b) = Val (f a b)"
| "np2 f (Val a) NaN = NaN"
| "np2 f NaN b = NaN"

text \<open>\<^verbatim>\<open>a <= b\<close> on floats: false when either side is NaN.\<close>

fun float_le :: "npfloat \<Rightarrow> npfloat \<Rightarrow> bool" where
  "float_le (Val a) (Val b) = (a \<le> b)"
| "float_le (Val a) NaN = False"
| "float_le NaN b = False"

text \<open>
  \<^verbatim>\<open>PlyData.read(path)['vertex']\<close> is the input of the model: the vertex element as the
  structured array it is, the field names of its dtype and one row per point.
  \<^verbatim>\<open>vertex[name]\<close> is the column of a field and raises ValueError for a name the dtype
  does not have.
\<close>

record vertex =
  dtype_names :: "string list"
  data :: "(string \<Rightarrow> npfloat) list"

definition vertex_getitem :: "vertex \<Rightarrow> string \<Rightarrow> error + npfloat list" where
  "vertex_getitem v name =
     (if name \<in> set (dtype_names v) then Inr (map (\<lambda>row. row name) (data v)) else Inl ValueError)"

text \<open>\<^verbatim>\<open>np.clip(a, a_min, a_max)\<close> is \<^verbatim>\<open>minimum(a_max, maximum(a, a_min))\<close> element by
  element; a NaN element stays NaN.\<close>

definition np_clip :: "npfloat list \<Rightarrow> real \<Rightarrow> real \<Rightarrow> npfloat list" where
  "np_clip a a_min a_max = map (np1 (\<lambda>w. min a_max (max a_min w))) a"

definition np_ones_like :: "npfloat list \<Rightarrow> npfloat list" where
  "np_ones_like a = replicate (length a) (Val 1)"

definition C0 :: real where
  "C0 = 0.28209479177387814"

text \<open>The three blocks of \<^verbatim>\<open>load_ply\<close> that choose a decoding by the fields present:
  the colour columns before clipping, the opacity column and the scale column. \<open>x\<close> is
  the column of the x coordinates, used by \<^verbatim>\<open>np.ones_like(x)\<close>.\<close>

definition color_columns ::
  "vertex \<Rightarrow> npfloat list \<Rightarrow> error + (npfloat list \<times> npfloat list \<times> npfloat list)"
where
  "color_columns v x =
     (if ''f_dc_0'' \<in> set (dtype_names v) then
        ebind (vertex_getitem v ''f_dc_0'') (\<lambda>d0.
        ebind (vertex_getitem v ''f_dc_1'') (\<lambda>d1.
        ebind (vertex_getitem v ''f_dc_2'') (\<lambda>d2.
        Inr (map (np1 (\<lambda>c. 0.5 + c * C0)) d0, map (np1 (\<lambda>c. 0.5 + c * C0)) d1,
             map (np1 (\<lambda>c. 0.5 + c * C0)) d2))))
      else if ''red'' \<in> set (dtype_names v) then
        ebind (vertex_getitem v ''red'') (\<lambda>c0.
        ebind (vertex_getitem v ''green'') (\<lambda>c1.
        ebind (vertex_getitem v ''blue'') (\<lambda>c2.
        Inr (map (np1 (\<lambda>c. c / 255.0)) c0, map (np1 (\<lambda>c. c / 255.0)) c1,
             map (np1 (\<lambda>c. c / 255.0)) c2))))
      else Inr (np_ones_like x, np_ones_like x, np_ones_like x))"

definition opacity_column :: "vertex \<Rightarrow> npfloat list \<Rightarrow> error + npfloat list" where
  "opacity_column v x =
     (if ''opacity'' \<in> set (dtype_names v) then
        ebind (vertex_getitem v ''opacity'') (\<lambda>opacity_logit.
        Inr (map (np1 (\<lambda>l. 1 / (1 + exp (- l)))) opacity_logit))
      else Inr (np_ones_like x))"

definition scale_column :: "vertex \<Rightarrow> npfloat list \<Rightarrow> error + npfloat list" where
  "scale_column v x =
     (if ''scale_0'' \<in> set (dtype_names v) then
        ebind (vertex_getitem v ''scale_0'') (\<lambda>c0.
        ebind (vertex_getitem v ''scale_1'') (\<lambda>c1.
        ebind (vertex_getitem v ''scale_2'') (\<lambda>c2.
        let scale_0 = map (np1 exp) c0; scale_1 = map (np1 exp) c1; scale_2 = map (np1 exp) c2
        in Inr (map (\<lambda>i. np1 (\<lambda>w. w / 3) (np2 (+) (np2 (+) (scale_0 ! i) (scale_1 ! i)) (scale_2 ! i)))
                  [0..<length scale_0]))))
      else Inr (map (np1 (\<lambda>w. w * 0.01)) (np_ones_like x)))"

definition load_ply :: "vertex \<Rightarrow> error + npfloat GaussianSplat list" where
  "load_ply v =
     ebind (vertex_getitem v ''x'') (\<lambda>x.
     ebind (vertex_getitem v ''y'') (\<lambda>y.
     ebind (vertex_getitem v ''z'') (\<lambda>z.
     ebind (color_columns v x) (\<lambda>(r0, g0, b0).
     let r = np_clip r0 0 1; g = np_clip g0 0 1; b = np_clip b0 0 1 in
     ebind (opacity_column v x) (\<lambda>opacity.
     ebind (scale_column v x) (\<lambda>scale.
     Inr (map (\<lambda>i. \<lparr> splat_x = x ! i, splat_y = y ! i, splat_z = z ! i,
                       splat_r = r ! i, splat_g = g ! i, splat_b = b ! i,
                       splat_opacity = opacity ! i, splat_scale = scale ! i \<rparr>)
              [0..<length x])))))))"

text \<open>The invariant of a decoded splat: colour channels and opacity in \<open>[0, 1]\<close>, scale
  not negative, the comparisons being those of floats.\<close>

definition splat_in_range :: "npfloat GaussianSplat \<Rightarrow> bool" where
  "splat_in_range s =
     (float_le (Val 0) (splat_r s) \<and> float_le (splat_r s) (Val 1)
      \<and> float_le (Val 0) (splat_g s) \<and> float_le (splat_g s) (Val 1)
      \<and> float_le (Val 0) (splat_b s) \<and> float_le (splat_b s) (Val 1)
      \<and> float_le (Val 0) (splat_opacity s) \<and> float_le (splat_opacity s) (Val 1)
      \<and> float_le (Val 0) (splat_scale s))"

text \<open>The decoding of one point as the specification describes it: the colour by the
  first tier whose fields are present, then clamped to \<open>[0, 1]\<close>; the logistic function
  of the opacity field or 1; the mean of the exponentials of the three scale fields or
  0.01. A NaN field gives NaN.\<close>

definition point_channel :: "vertex \<Rightarrow> string \<Rightarrow> string \<Rightarrow> (string \<Rightarrow> npfloat) \<Rightarrow> npfloat" where
  "point_channel v dc rgb row =
     (if ''f_dc_0'' \<in> set (dtype_names v)
      then np1 (\<lambda>d. spec_clamp (0.5 + d * 0.28209479177387814) 0 1) (row dc)
      else if ''red'' \<in> set (dtype_names v) then np1 (\<lambda>c. spec_clamp (c / 255.0) 0 1) (row rgb)
      else Val 1)"

definition point_opacity :: "vertex \<Rightarrow> (string \<Rightarrow> npfloat) \<Rightarrow> npfloat" where
  "point_opacity v row =
     (if ''opacity'' \<in> set (dtype_names v) then np1 (\<lambda>l. 1 / (1 + exp (- l))) (row ''opacity'')
      else Val 1.0)"

definition point_scale :: "vertex \<Rightarrow> (string \<Rightarrow> npfloat) \<Rightarrow> npfloat" where
  "point_scale v row =
     (if ''scale_0'' \<in> set (dtype_names v)
      then np1 (\<lambda>w. w / 3)
             (np2 (+) (np2 (+) (np1 exp (row ''scale_0'')) (np1 exp (row ''scale_1'')))
                      (np1 exp (row ''scale_2'')))
      else Val 0.01)"

definition decode_point :: "vertex \<Rightarrow> (string \<Rightarrow> npfloat) \<Rightarrow> npfloat GaussianSplat" where
  "decode_point v row =
     \<lparr> splat_x = row ''x'', splat_y = row ''y'', splat_z = row ''z'',
       splat_r = point_channel v ''f_dc_0'' ''red'' row,
       splat_g = point_channel v ''f_dc_1'' ''green'' row,
       splat_b = point_channel v ''f_dc_2'' ''blue'' row,
       splat_opacity = point_opacity v row,
       splat_scale = point_scale v row \<rparr>"

text \<open>The fields a group needs once its first field is present; \<^verbatim>\<open>load_ply\<close> raises
  ValueError when one is missing.\<close>

definition fields_complete :: "vertex \<Rightarrow> bool" where
  "fields_complete v =
     (let names = set (dtype_names v) in
      ''x'' \<in> names \<and> ''y'' \<in> names \<and> ''z'' \<in> names
      \<and> (if ''f_dc_0'' \<in> names then ''f_dc_1'' \<in> names \<and> ''f_dc_2'' \<in> names
         else if ''red'' \<in> names then ''green'' \<in> names \<and> ''blue'' \<in> names else True)
      \<and> (if ''scale_0'' \<in> names then ''scale_1'' \<in> names \<and> ''scale_2'' \<in> names else True))"

subsection \<open>Example inputs\<close>

text \<open>One possible behaviour of \<^verbatim>\<open>np.random.choice(n, k, replace=False)\<close>: ValueError
  for a negative size or a sample larger than the population, otherwise \<open>k\<close> distinct
  indices below \<open>n\<close>.\<close>

definition choice_first :: "nat \<Rightarrow> int \<Rightarrow> error + nat list" where
  "choice_first n k = (if k < 0 \<or> int n < k then Inl ValueError else Inr (rev [0..<nat k]))"

text \<open>Three splats; \<open>demo_a\<close> and \<open>demo_c\<close> have the same opacity.\<close>

definition demo_a :: "real GaussianSplat" where
  "demo_a = \<lparr> splat_x = 1, splat_y = 2, splat_z = 3, splat_r = 0.5, splat_g = 1.7, splat_b = -3,
               splat_opacity = 0.5, splat_scale = 0.01 \<rparr>"

definition demo_b :: "real GaussianSplat" where
  "demo_b = \<lparr> splat_x = -1, splat_y = 0, splat_z = 0.0625, splat_r = 0, splat_g = 1, splat_b = 0.25,
               splat_opacity = 0.9, splat_scale = 0.2 \<rparr>"

definition demo_c :: "real GaussianSplat" where
  "demo_c = \<lparr> splat_x = 7, splat_y = 2, splat_z = 3, splat_r = 0.5, splat_g = 1.7, splat_b = -3,
               splat_opacity = 0.5, splat_scale = 0.01 \<rparr>"

text \<open>A splat below the default threshold 0.1 and one exactly on it.\<close>

definition demo_faint :: "real GaussianSplat" where
  "demo_faint = \<lparr> splat_x = 0, splat_y = 0, splat_z = 0, splat_r = 1, splat_g = 1, splat_b = 1,
                   splat_opacity = 0.05, splat_scale = 0.01 \<rparr>"

definition demo_edge :: "real GaussianSplat" where
  "demo_edge = \<lparr> splat_x = 0.1875, splat_y = -2.5, splat_z = 10, splat_r = 1, splat_g = 0.2,
                  splat_b = 0.999, splat_opacity = 0.10, splat_scale = 0.001 \<rparr>"

text \<open>One point of a vertex table, and two tables holding it: one with the
  spherical-harmonic fields and the 8-bit colours both present, one with the 8-bit
  colours only and neither opacity nor scale.\<close>

definition demo_row :: "string \<Rightarrow> npfloat" where
  "demo_row name =
     Val (if name = ''x'' then 1.5 else if name = ''y'' then - 2 else if name = ''z'' then 4
          else if name = ''f_dc_1'' then 10 else if name = ''f_dc_2'' then - 10
          else if name = ''red'' then 255 else if name = ''green'' then 51
          else if name = ''blue'' then 300 else 0)"

definition demo_vertex_sh :: vertex where
  "demo_vertex_sh = \<lparr> dtype_names = [''x'', ''y'', ''z'', ''f_dc_0'', ''f_dc_1'', ''f_dc_2'',
                                       ''red'', ''green'', ''blue'', ''opacity'',
                                       ''scale_0'', ''scale_1'', ''scale_2''],
                       data = [demo_row] \<rparr>"

definition demo_vertex_rgb :: vertex where
  "demo_vertex_rgb = \<lparr> dtype_names = [''x'', ''y'', ''z'', ''red'', ''green'', ''blue''],
                        data = [demo_row] \<rparr>"

text \<open>The same point with NaN in three of its fields, and the table holding it.\<close>

definition demo_row_nan :: "string \<Rightarrow> npfloat" where
  "demo_row_nan name =
     (if name = ''f_dc_0'' \<or> name = ''opacity'' \<or> name = ''scale_1'' then NaN else demo_row name)"

definition demo_vertex_nan :: vertex where
  "demo_vertex_nan = \<lparr> dtype_names = [''x'', ''y'', ''z'', ''f_dc_0'', ''f_dc_1'', ''f_dc_2'',
                                        ''opacity'', ''scale_0'', ''scale_1'', ''scale_2''],
                        data = [demo_row_nan] \<rparr>"

lemmas demo_defs = demo_a_def demo_b_def demo_c_def demo_faint_def demo_edge_def

lemmas load_eval = load_ply_def color_columns_def opacity_column_def scale_column_def
  vertex_getitem_def np_clip_def np_ones_like_def C0_def demo_row_def demo_row_nan_def Let_def


section \<open>Properties\<close>

subsection \<open>Auxiliary facts\<close>

lemma ebind_Inr [simp]: "ebind (Inr v) f = f v" by (simp add: ebind_def)
lemma ebind_Inl [simp]: "ebind (Inl e) f = Inl e" by (simp add: ebind_def)

lemma mset_py_sorted: "mset (py_sorted key reverse xs) = mset xs"
  by (simp add: py_sorted_def)

lemma length_py_sorted: "length (py_sorted key reverse xs) = length xs"
  by (simp add: py_sorted_def)

lemma py_sorted_descending:
  "sorted_wrt (\<lambda>a b. key b \<le> key a) (py_sorted key True xs)"
proof -
  have "sorted (map key (sort_key key (rev xs)))" by simp
  then have "sorted_wrt (\<lambda>a b. key a \<le> key b) (sort_key key (rev xs))"
    by (simp add: sorted_wrt_map)
  then show ?thesis
    by (simp add: py_sorted_def sorted_wrt_rev)
qed

lemma py_sorted_stable:
  "filter (\<lambda>s. key s = v) (py_sorted key True xs) = filter (\<lambda>s. key s = v) xs"
proof -
  have "filter (\<lambda>s. key s = v) (sort_key key (rev xs)) = filter (\<lambda>s. key s = v) (rev xs)"
    by (rule sort_key_stable)
  then show ?thesis
    by (simp add: py_sorted_def rev_filter [symmetric])
qed

lemma emap_in_range:
  "\<forall>i\<in>set idx. i < length xs \<Longrightarrow> emap (py_getitem xs) idx = Inr (map ((!) xs) idx)"
  by (induction idx) (simp_all add: py_getitem_def)

lemma emap_out_of_range:
  "\<exists>i\<in>set idx. \<not> i < length xs \<Longrightarrow> emap (py_getitem xs) idx = Inl IndexError"
proof (induction idx)
  case Nil then show ?case by simp
next
  case (Cons i idx)
  show ?case
  proof (cases "i < length xs")
    case True
    with Cons have "emap (py_getitem xs) idx = Inl IndexError" by auto
    moreover from True have "py_getitem xs i = Inr (xs ! i)" by (simp add: py_getitem_def)
    ultimately show ?thesis by simp
  next
    case False then show ?thesis by (simp add: py_getitem_def)
  qed
qed

lemma take_sorted_dominates:
  assumes "sorted_wrt (\<lambda>a b. key b \<le> key a) zs" "a \<in> set (take n zs)" "b \<in> set (drop n zs)"
  shows "key b \<le> key a"
proof -
  from assms(1) have "sorted_wrt (\<lambda>a b. key b \<le> key a) (take n zs @ drop n zs)" by simp
  then show ?thesis using assms(2,3) unfolding sorted_wrt_append by blast
qed

lemma mset_nths_distinct:
  assumes "distinct idx" and "\<forall>i\<in>set idx. i < length xs"
  shows "mset (map ((!) xs) idx) \<subseteq># mset xs"
proof -
  from assms(2) have "set idx \<subseteq> {0..<length xs}" by auto
  then have "mset_set (set idx) \<subseteq># mset_set {0..<length xs}"
    by (intro subset_imp_msubset_mset_set) simp_all
  with assms(1) have "mset idx \<subseteq># mset [0..<length xs]"
    by (simp add: mset_set_set)
  then have "image_mset ((!) xs) (mset idx) \<subseteq># image_mset ((!) xs) (mset [0..<length xs])"
    by (rule image_mset_subseteq_mono)
  moreover have "image_mset ((!) xs) (mset [0..<length xs]) = mset (map ((!) xs) [0..<length xs])"
    by (simp only: mset_map)
  moreover have "map ((!) xs) [0..<length xs] = xs" by (rule map_nth)
  ultimately show ?thesis by (simp only: mset_map)
qed

lemma spec_clamp_max_min: "lo \<le> hi \<Longrightarrow> max lo (min hi w) = spec_clamp w lo hi"
  by (auto simp add: spec_clamp_def)

lemma spec_clamp_min_max: "lo \<le> hi \<Longrightarrow> min hi (max lo w) = spec_clamp w lo hi"
  by (auto simp add: spec_clamp_def)

lemma spec_clamp_bounds: "lo \<le> hi \<Longrightarrow> lo \<le> spec_clamp w lo hi \<and> spec_clamp w lo hi \<le> hi"
  by (auto simp add: spec_clamp_def)

subsection \<open>Facts about number formatting\<close>

lemma digit_char_digit: "digit_char d \<in> set ''0123456789''"
  unfolding digit_char_def by (rule nth_mem) simp

lemma str_nat_digits: "set (str_nat n) \<subseteq> set ''0123456789''"
proof (induction n rule: str_nat.induct)
  case (1 n)
  show ?case
  proof (cases "n < 10")
    case True
    then have "str_nat n = [digit_char n]" by (simp add: str_nat.simps)
    then show ?thesis using digit_char_digit [of n] by simp
  next
    case False
    then have "str_nat n = str_nat (n div 10) @ [digit_char (n mod 10)]"
      by (subst str_nat.simps) simp
    moreover from False 1 have "set (str_nat (n div 10)) \<subseteq> set ''0123456789''" by simp
    ultimately show ?thesis using digit_char_digit [of "n mod 10"] by simp
  qed
qed

lemma str_nat_nonempty: "str_nat n \<noteq> []"
  by (subst str_nat.simps) simp

lemma length_str_nat: "n < 10 ^ p \<Longrightarrow> 0 < p \<Longrightarrow> length (str_nat n) \<le> p"
proof (induction n arbitrary: p rule: str_nat.induct)
  case (1 n)
  show ?case
  proof (cases "n < 10")
    case True
    then have "str_nat n = [digit_char n]" by (simp add: str_nat.simps)
    with 1(3) show ?thesis by simp
  next
    case False
    then have eq: "str_nat n = str_nat (n div 10) @ [digit_char (n mod 10)]"
      by (subst str_nat.simps) simp
    from 1(3) obtain q where p: "p = Suc q" by (cases p) auto
    from False 1(2) p have "q \<noteq> 0" by (cases q) auto
    then have q: "0 < q" by simp
    from 1(2) p have "n div 10 < 10 ^ q" by (simp add: less_mult_imp_div_less mult.commute)
    from 1(1) [OF False this q] have "length (str_nat (n div 10)) \<le> q" .
    with eq p show ?thesis by simp
  qed
qed

lemma length_zfill: "length s \<le> w \<Longrightarrow> length (zfill w s) = w"
  by (simp add: zfill_def)

lemma zfill_digits: "set s \<subseteq> set ''0123456789'' \<Longrightarrow> set (zfill w s) \<subseteq> set ''0123456789''"
  by (auto simp add: zfill_def)

lemma py_format_f_shape:
  assumes "0 < p"
  shows "\<exists>ip fp. py_format_f p v = (if v < 0 then ''-'' else []) @ ip @ ''.'' @ fp
           \<and> ip \<noteq> [] \<and> decimal_digits ip \<and> length fp = p \<and> decimal_digits fp"
proof -
  define m where "m = nat (round_half_even (\<bar>v\<bar> * 10 ^ p))"
  define ip where "ip = str_nat (m div 10 ^ p)"
  define fp where "fp = zfill p (str_nat (m mod 10 ^ p))"
  have "py_format_f p v = (if v < 0 then ''-'' else []) @ ip @ ''.'' @ fp"
    unfolding py_format_f_def Let_def m_def ip_def fp_def using assms by simp
  moreover have "ip \<noteq> []" by (simp add: ip_def str_nat_nonempty)
  moreover have "decimal_digits ip" unfolding decimal_digits_def ip_def by (rule str_nat_digits)
  moreover have "length fp = p"
    unfolding fp_def by (rule length_zfill, rule length_str_nat) (use assms in simp_all)
  moreover have "decimal_digits fp"
    unfolding decimal_digits_def fp_def by (rule zfill_digits, rule str_nat_digits)
  ultimately show ?thesis by blast
qed

lemma py_format_f_chars: "set (py_format_f p v) \<subseteq> set ''-.0123456789''"
proof -
  have a: "set (str_nat n) \<subseteq> set ''-.0123456789''" for n
    using str_nat_digits [of n] by (rule subset_trans) simp
  have b: "set (zfill w (str_nat n)) \<subseteq> set ''-.0123456789''" for w n
    using zfill_digits [OF str_nat_digits, of w n] by (rule subset_trans) simp
  have c: "set (if v < 0 then ''-'' else []) \<subseteq> set ''-.0123456789''"
    by (cases "v < 0") simp_all
  have d: "set (if p = 0 then [] else ''.'' @ zfill p (str_nat n)) \<subseteq> set ''-.0123456789''" for n
  proof (cases "p = 0")
    case True then show ?thesis by simp
  next
    case False
    have "set ''.'' \<subseteq> set ''-.0123456789''" by simp
    with b [of p n] have "set (''.'' @ zfill p (str_nat n)) \<subseteq> set ''-.0123456789''"
      by (simp only: set_append Un_subset_iff)
    with False show ?thesis by (simp only: if_False)
  qed
  show ?thesis
    unfolding py_format_f_def Let_def by (simp only: set_append Un_subset_iff a c d simp_thms)
qed

lemma py_format_f_no_space: "CHR '' '' \<notin> set (py_format_f p v)"
  using py_format_f_chars [of p v] by auto

lemma py_format_f_no_newline: "CHR 0x0A \<notin> set (py_format_f p v)"
  using py_format_f_chars [of p v] by auto

lemma str_nat_no_newline: "CHR 0x0A \<notin> set (str_nat n)"
  using str_nat_digits [of n] by auto

lemma replicate_num: "replicate (numeral k) x = x # replicate (pred_numeral k) x"
  by (simp add: numeral_eq_Suc)

lemmas fmt_eval = py_format_f_def round_half_even_def zfill_def str_nat.simps digit_char_def Let_def
  replicate_num

subsection \<open>Facts about splitting and joining\<close>

lemma split_acc_nosep:
  "c \<notin> set a \<Longrightarrow> split_acc c cur (a @ rest) = split_acc c (rev a @ cur) rest"
  by (induction a arbitrary: cur) auto

lemma split_acc_piece:
  "c \<notin> set a \<Longrightarrow> split_acc c [] (a @ c # rest) = a # split_acc c [] rest"
  by (simp add: split_acc_nosep)

lemma split_acc_last: "c \<notin> set a \<Longrightarrow> split_acc c [] a = [a]"
  using split_acc_nosep [of c a "[]" "[]"] by simp

lemma split_join:
  "ls \<noteq> [] \<Longrightarrow> \<forall>l\<in>set ls. c \<notin> set l \<Longrightarrow> split_acc c [] (py_join [c] ls) = ls"
proof (induction "[c]" ls rule: py_join.induct)
  case 1
  then show ?case by simp
next
  case (2 l)
  then show ?case by (simp add: split_acc_last)
next
  case (3 l k ks)
  then have "split_acc c [] (py_join [c] (k # ks)) = k # ks" by simp
  with 3(3) show ?case by (simp add: split_acc_piece)
qed

lemma tokens_eleven:
  assumes "CHR '' '' \<notin> set a1" "CHR '' '' \<notin> set a2" "CHR '' '' \<notin> set a3" "CHR '' '' \<notin> set a4"
    "CHR '' '' \<notin> set a5" "CHR '' '' \<notin> set a6" "CHR '' '' \<notin> set a7" "CHR '' '' \<notin> set a8"
    "CHR '' '' \<notin> set a9" "CHR '' '' \<notin> set a10" "CHR '' '' \<notin> set a11"
  shows "tokens (a1 @ CHR '' '' # a2 @ CHR '' '' # a3 @ CHR '' '' # a4 @ CHR '' '' # a5 @ CHR '' '' # a6
           @ CHR '' '' # a7 @ CHR '' '' # a8 @ CHR '' '' # a9 @ CHR '' '' # a10 @ CHR '' '' # a11)
         = [a1, a2, a3, a4, a5, a6, a7, a8, a9, a10, a11]"
  using assms by (simp add: tokens_def split_acc_piece split_acc_last)

subsection \<open>Facts about the emitter\<close>

lemma emit_filter:
  "emit relative min_opacity splats
     = map (line relative) (filter (\<lambda>s. min_opacity \<le> splat_opacity s) splats)"
  by (induction splats) (simp_all add: not_less)

lemma particle_scale_clamp: "particle_scale s = spec_clamp (splat_scale s * 50) 0.1 4.0"
  unfolding particle_scale_def by (rule spec_clamp_max_min) simp

lemma pos_spec: "pos relative s = spec_position relative s"
  by (simp add: pos_def spec_position_def)

lemma line_spec_parts:
  "line relative s = ''particle dust'' @ spec_parameter_block s @ '' '' @ spec_position relative s
       @ '' 0 0 0 0 1 force''"
proof -
  have c: "max 0 (min 1 w) = spec_clamp w 0 1" for w :: real
    by (rule spec_clamp_max_min) simp
  show ?thesis
    by (simp add: line_def Let_def c particle_scale_clamp spec_parameter_block_def pos_spec)
qed

lemma spec_parameter_block_no_space: "CHR '' '' \<notin> set (spec_parameter_block s)"
  by (simp add: spec_parameter_block_def py_format_f_no_space)

lemma line_no_newline: "CHR 0x0A \<notin> set (line relative s)"
  by (simp add: line_spec_parts spec_parameter_block_def spec_position_def py_format_f_no_newline)

lemma line_split:
  "line relative s = ''particle'' @ CHR '' '' # (''dust'' @ spec_parameter_block s)
      @ CHR '' '' # ((if relative then ''~'' else []) @ py_format_f 3 (splat_x s))
      @ CHR '' '' # ((if relative then ''~'' else []) @ py_format_f 3 (splat_y s))
      @ CHR '' '' # ((if relative then ''~'' else []) @ py_format_f 3 (splat_z s))
      @ CHR '' '' # ''0'' @ CHR '' '' # ''0'' @ CHR '' '' # ''0'' @ CHR '' '' # ''0''
      @ CHR '' '' # ''1'' @ CHR '' '' # ''force''"
  by (cases relative)
     (simp_all only: line_spec_parts spec_position_def append_assoc append_Cons append_Nil
        if_True if_False)

lemma line_tokens:
  "tokens (line relative s) =
     [''particle'', ''dust'' @ spec_parameter_block s,
      (if relative then ''~'' else []) @ py_format_f 3 (splat_x s),
      (if relative then ''~'' else []) @ py_format_f 3 (splat_y s),
      (if relative then ''~'' else []) @ py_format_f 3 (splat_z s),
      ''0'', ''0'', ''0'', ''0'', ''1'', ''force'']"
proof -
  have n: "CHR '' '' \<notin> set ((if relative then ''~'' else []) @ py_format_f 3 w)" for w
    by (simp add: py_format_f_no_space)
  have b: "CHR '' '' \<notin> set (''dust'' @ spec_parameter_block s)"
    by (simp add: spec_parameter_block_no_space)
  have p: "CHR '' '' \<notin> set ''particle''" and z: "CHR '' '' \<notin> set ''0''"
    and o: "CHR '' '' \<notin> set ''1''" and f: "CHR '' '' \<notin> set ''force''"
    by simp_all
  show ?thesis
    unfolding line_split by (rule tokens_eleven [OF p b n n n z z z z o f])
qed

lemma lines_no_newline: "\<forall>l\<in>set (lines splats relative min_opacity). CHR 0x0A \<notin> set l"
  by (auto simp add: lines_def emit_filter line_no_newline str_nat_no_newline)

lemma text_lines_generate:
  "text_lines (generate_mcfunction splats relative min_opacity) = lines splats relative min_opacity"
  unfolding text_lines_def generate_mcfunction_def
  by (rule split_join) (simp add: lines_def, rule lines_no_newline)

subsection \<open>Facts about the decoder\<close>

lemma np1_np1: "np1 f (np1 g a) = np1 (\<lambda>w. f (g w)) a"
  by (cases a) simp_all

lemma vertex_getitem_present:
  "name \<in> set (dtype_names v) \<Longrightarrow> vertex_getitem v name = Inr (map (\<lambda>row. row name) (data v))"
  by (simp add: vertex_getitem_def)

lemma vertex_getitem_absent:
  "name \<notin> set (dtype_names v) \<Longrightarrow> vertex_getitem v name = Inl ValueError"
  by (simp add: vertex_getitem_def)

lemma vertex_getitem_Inr: "vertex_getitem v name = Inr c \<Longrightarrow> name \<in> set (dtype_names v)"
  by (simp add: vertex_getitem_def split: if_splits)

lemma ebind_eq_Inr: "ebind m f = Inr y \<longleftrightarrow> (\<exists>x. m = Inr x \<and> f x = Inr y)"
  by (cases m) simp_all

lemma color_columns_complete:
  assumes "fields_complete v" and "length x = length (data v)"
  shows "color_columns v x =
     Inr (map (\<lambda>row. if ''f_dc_0'' \<in> set (dtype_names v) then np1 (\<lambda>c. 0.5 + c * C0) (row ''f_dc_0'')
                       else if ''red'' \<in> set (dtype_names v) then np1 (\<lambda>c. c / 255.0) (row ''red'')
                       else Val 1) (data v),
          map (\<lambda>row. if ''f_dc_0'' \<in> set (dtype_names v) then np1 (\<lambda>c. 0.5 + c * C0) (row ''f_dc_1'')
                       else if ''red'' \<in> set (dtype_names v) then np1 (\<lambda>c. c / 255.0) (row ''green'')
                       else Val 1) (data v),
          map (\<lambda>row. if ''f_dc_0'' \<in> set (dtype_names v) then np1 (\<lambda>c. 0.5 + c * C0) (row ''f_dc_2'')
                       else if ''red'' \<in> set (dtype_names v) then np1 (\<lambda>c. c / 255.0) (row ''blue'')
                       else Val 1) (data v))"
proof (cases "''f_dc_0'' \<in> set (dtype_names v)")
  case True
  with assms(1) have "''f_dc_1'' \<in> set (dtype_names v)" "''f_dc_2'' \<in> set (dtype_names v)"
    by (simp_all add: fields_complete_def Let_def)
  with True show ?thesis
    by (simp add: color_columns_def vertex_getitem_present comp_def)
next
  case False
  show ?thesis
  proof (cases "''red'' \<in> set (dtype_names v)")
    case True
    with False assms(1) have "''green'' \<in> set (dtype_names v)" "''blue'' \<in> set (dtype_names v)"
      by (simp_all add: fields_complete_def Let_def)
    with True False show ?thesis
      by (simp add: color_columns_def vertex_getitem_present comp_def)
  next
    case r: False
    with False assms(2) show ?thesis
      by (simp add: color_columns_def np_ones_like_def map_replicate_const)
  qed
qed

lemma opacity_column_eq:
  assumes "length x = length (data v)"
  shows "opacity_column v x = Inr (map (point_opacity v) (data v))"
proof (cases "''opacity'' \<in> set (dtype_names v)")
  case True
  then have "map (point_opacity v) (data v)
      = map (\<lambda>row. np1 (\<lambda>l. 1 / (1 + exp (- l))) (row ''opacity'')) (data v)"
    by (intro map_cong refl) (simp add: point_opacity_def)
  with True show ?thesis
    by (simp add: opacity_column_def vertex_getitem_present comp_def)
next
  case False
  then have "map (point_opacity v) (data v) = map (\<lambda>row. Val 1) (data v)"
    by (intro map_cong refl) (simp add: point_opacity_def)
  with False assms show ?thesis
    by (simp add: opacity_column_def np_ones_like_def map_replicate_const)
qed

lemma scale_column_complete:
  assumes "fields_complete v" and "length x = length (data v)"
  shows "scale_column v x = Inr (map (point_scale v) (data v))"
proof (cases "''scale_0'' \<in> set (dtype_names v)")
  case True
  with assms(1) have "''scale_1'' \<in> set (dtype_names v)" "''scale_2'' \<in> set (dtype_names v)"
    by (simp_all add: fields_complete_def Let_def)
  moreover have "map (\<lambda>i. np1 (\<lambda>w. w / 3)
        (np2 (+) (np2 (+) (map (\<lambda>row. np1 exp (row ''scale_0'')) (data v) ! i)
                          (map (\<lambda>row. np1 exp (row ''scale_1'')) (data v) ! i))
                 (map (\<lambda>row. np1 exp (row ''scale_2'')) (data v) ! i))) [0..<length (data v)]
      = map (point_scale v) (data v)"
    using True by (intro nth_equalityI) (simp_all add: point_scale_def)
  ultimately show ?thesis using True
    by (simp add: scale_column_def vertex_getitem_present Let_def comp_def)
next
  case False
  then have "map (point_scale v) (data v) = map (\<lambda>row. Val 0.01) (data v)"
    by (intro map_cong refl) (simp add: point_scale_def)
  with False assms(2) show ?thesis
    by (simp add: scale_column_def np_ones_like_def map_replicate_const)
qed

lemma color_columns_Inr:
  assumes "color_columns v x = Inr c"
  shows "if ''f_dc_0'' \<in> set (dtype_names v)
         then ''f_dc_1'' \<in> set (dtype_names v) \<and> ''f_dc_2'' \<in> set (dtype_names v)
         else if ''red'' \<in> set (dtype_names v)
         then ''green'' \<in> set (dtype_names v) \<and> ''blue'' \<in> set (dtype_names v) else True"
proof (cases "''f_dc_0'' \<in> set (dtype_names v)")
  case True
  with assms show ?thesis
    by (auto simp add: color_columns_def ebind_eq_Inr dest: vertex_getitem_Inr)
next
  case False
  with assms show ?thesis
    by (auto simp add: color_columns_def ebind_eq_Inr dest: vertex_getitem_Inr split: if_splits)
qed

lemma scale_column_Inr:
  assumes "scale_column v x = Inr c"
  shows "if ''scale_0'' \<in> set (dtype_names v)
         then ''scale_1'' \<in> set (dtype_names v) \<and> ''scale_2'' \<in> set (dtype_names v) else True"
  using assms
  by (auto simp add: scale_column_def ebind_eq_Inr Let_def dest: vertex_getitem_Inr split: if_splits)

lemma load_ply_Inr_complete:
  assumes "load_ply v = Inr splats"
  shows "fields_complete v"
proof -
  from assms obtain x y z c sc where
    x: "vertex_getitem v ''x'' = Inr x" and y: "vertex_getitem v ''y'' = Inr y"
    and z: "vertex_getitem v ''z'' = Inr z" and c: "color_columns v x = Inr c"
    and sc: "scale_column v x = Inr sc"
    by (auto simp add: load_ply_def ebind_eq_Inr Let_def split: prod.splits)
  from x y z have "''x'' \<in> set (dtype_names v)" "''y'' \<in> set (dtype_names v)" "''z'' \<in> set (dtype_names v)"
    by (auto dest: vertex_getitem_Inr)
  with color_columns_Inr [OF c] scale_column_Inr [OF sc] show ?thesis
    by (simp add: fields_complete_def Let_def)
qed

lemma load_ply_complete:
  assumes "fields_complete v"
  shows "load_ply v = Inr (map (decode_point v) (data v))"
proof -
  let ?x = "map (\<lambda>row. row ''x'') (data v)"
  have len: "length ?x = length (data v)" by simp
  from assms have p: "''x'' \<in> set (dtype_names v)" "''y'' \<in> set (dtype_names v)" "''z'' \<in> set (dtype_names v)"
    by (simp_all add: fields_complete_def Let_def)
  have build: "map (\<lambda>i. \<lparr> splat_x = ?x ! i, splat_y = map (\<lambda>row. row ''y'') (data v) ! i,
        splat_z = map (\<lambda>row. row ''z'') (data v) ! i,
        splat_r = np_clip (map (\<lambda>row. if ''f_dc_0'' \<in> set (dtype_names v) then np1 (\<lambda>c. 0.5 + c * C0) (row ''f_dc_0'')
                       else if ''red'' \<in> set (dtype_names v) then np1 (\<lambda>c. c / 255.0) (row ''red'')
                       else Val 1) (data v)) 0 1 ! i,
        splat_g = np_clip (map (\<lambda>row. if ''f_dc_0'' \<in> set (dtype_names v) then np1 (\<lambda>c. 0.5 + c * C0) (row ''f_dc_1'')
                       else if ''red'' \<in> set (dtype_names v) then np1 (\<lambda>c. c / 255.0) (row ''green'')
                       else Val 1) (data v)) 0 1 ! i,
        splat_b = np_clip (map (\<lambda>row. if ''f_dc_0'' \<in> set (dtype_names v) then np1 (\<lambda>c. 0.5 + c * C0) (row ''f_dc_2'')
                       else if ''red'' \<in> set (dtype_names v) then np1 (\<lambda>c. c / 255.0) (row ''blue'')
                       else Val 1) (data v)) 0 1 ! i,
        splat_opacity = map (point_opacity v) (data v) ! i,
        splat_scale = map (point_scale v) (data v) ! i \<rparr>) [0..<length ?x]
      = map (decode_point v) (data v)"
  proof -
    have one: "spec_clamp 1 0 1 = 1" by (simp add: spec_clamp_def)
    show ?thesis
      by (intro nth_equalityI)
         (simp_all add: np_clip_def decode_point_def point_channel_def np1_np1 spec_clamp_min_max
            C0_def one)
  qed
  show ?thesis
    unfolding load_ply_def
    by (simp only: vertex_getitem_present [OF p(1)] vertex_getitem_present [OF p(2)]
          vertex_getitem_present [OF p(3)] ebind_Inr color_columns_complete [OF assms len]
          opacity_column_eq [OF len] scale_column_complete [OF assms len] prod.case Let_def build)
qed

lemma point_channel_in_range:
  assumes "row dc \<noteq> NaN" and "row rgb \<noteq> NaN"
  shows "float_le (Val 0) (point_channel v dc rgb row) \<and> float_le (point_channel v dc rgb row) (Val 1)"
proof -
  have b: "0 \<le> spec_clamp w 0 1 \<and> spec_clamp w 0 1 \<le> 1" for w :: real
    by (rule spec_clamp_bounds) simp
  from assms obtain d c where "row dc = Val d" "row rgb = Val c"
    by (cases "row dc"; cases "row rgb") auto
  then show ?thesis using b by (simp add: point_channel_def)
qed

lemma point_opacity_in_range:
  assumes "row ''opacity'' \<noteq> NaN"
  shows "float_le (Val 0) (point_opacity v row) \<and> float_le (point_opacity v row) (Val 1)"
proof -
  from assms obtain l where l: "row ''opacity'' = Val l" by (cases "row ''opacity''") auto
  have "0 < exp (- l)" by simp
  then have "0 \<le> 1 / (1 + exp (- l))" "1 / (1 + exp (- l)) \<le> 1"
    by (simp_all add: add_pos_pos)
  with l show ?thesis by (simp add: point_opacity_def)
qed

lemma point_scale_nonneg:
  assumes "row ''scale_0'' \<noteq> NaN" and "row ''scale_1'' \<noteq> NaN" and "row ''scale_2'' \<noteq> NaN"
  shows "float_le (Val 0) (point_scale v row)"
proof -
  from assms obtain a b c where "row ''scale_0'' = Val a" "row ''scale_1'' = Val b" "row ''scale_2'' = Val c"
    by (cases "row ''scale_0''"; cases "row ''scale_1''"; cases "row ''scale_2''") auto
  then show ?thesis by (simp add: point_scale_def add_nonneg_nonneg)
qed

lemma decoded_in_range_without_nan:
  assumes "load_ply v = Inr splats" and "\<forall>row\<in>set (data v). \<forall>name. row name \<noteq> NaN"
  shows "\<forall>s\<in>set splats. splat_in_range s"
proof
  fix s assume s: "s \<in> set splats"
  from assms(1) have "fields_complete v" by (rule load_ply_Inr_complete)
  with assms(1) have "splats = map (decode_point v) (data v)" by (simp add: load_ply_complete)
  with s obtain row where row: "row \<in> set (data v)" "s = decode_point v row" by auto
  from row(1) assms(2) have n: "row name \<noteq> NaN" for name by blast
  show "splat_in_range s"
    using point_channel_in_range [OF n n, of v] point_opacity_in_range [OF n, of v]
      point_scale_nonneg [OF n n n, of v]
    by (simp add: splat_in_range_def row(2) decode_point_def)
qed

subsection \<open>Facts about the normalizer\<close>

lemma py_min_Min: "xs \<noteq> [] \<Longrightarrow> py_min xs = Inr (Min (set xs))"
proof (cases xs)
  case Nil
  moreover assume "xs \<noteq> []"
  ultimately show ?thesis by simp
next
  case (Cons y ys)
  have "(\<lambda>w m. if w < m then w else m) = (min :: real \<Rightarrow> real \<Rightarrow> real)"
    by (intro ext) (simp add: min_def)
  moreover have "Min (set (y # ys)) = fold min ys y" by (rule Min.set_eq_fold)
  ultimately show ?thesis using Cons
    by (simp add: py_min_def)
qed

lemma py_max_Max: "xs \<noteq> [] \<Longrightarrow> py_max xs = Inr (Max (set xs))"
proof (cases xs)
  case Nil
  moreover assume "xs \<noteq> []"
  ultimately show ?thesis by simp
next
  case (Cons y ys)
  have "(\<lambda>w m. if w > m then w else m) = (max :: real \<Rightarrow> real \<Rightarrow> real)"
    by (intro ext) (simp add: max_def)
  moreover have "Max (set (y # ys)) = fold max ys y" by (rule Max.set_eq_fold)
  ultimately show ?thesis using Cons
    by (simp add: py_max_def)
qed

lemma py_or_range: "vs \<noteq> [] \<Longrightarrow> py_or (Max (set vs) - Min (set vs)) 1 = spec_range vs"
  by (simp add: py_or_def spec_range_def Let_def)

lemma spec_range_pos: "vs \<noteq> [] \<Longrightarrow> 0 < spec_range vs"
proof -
  assume "vs \<noteq> []"
  then have "Min (set vs) \<le> Max (set vs)" by (simp add: Min_le_iff)
  then show ?thesis by (auto simp add: spec_range_def Let_def)
qed

lemma max3_Max: "max (max a b) c = Max {a, b, c :: real}"
  by (simp add: max.commute max.left_commute)

lemma normalize_nonempty:
  assumes "splats \<noteq> []"
  shows "normalize_splats splats target_size center
           = Inr (map (spec_normalize_one splats target_size center) splats)"
proof -
  let ?xs = "map splat_x splats" and ?ys = "map splat_y splats" and ?zs = "map splat_z splats"
  from assms have ne: "?xs \<noteq> []" "?ys \<noteq> []" "?zs \<noteq> []" by simp_all
  let ?m = "max (max (spec_range ?xs) (spec_range ?ys)) (spec_range ?zs)"
  have "0 < ?m" using spec_range_pos [OF ne(1)] by (simp add: less_max_iff_disj)
  then have div: "py_truediv target_size ?m = Inr (spec_scale_factor splats target_size)"
    by (simp add: py_truediv_def spec_scale_factor_def max3_Max)
  have rec: "(\<lambda>s. \<lparr> splat_x = (splat_x s - spec_center center ?xs) * spec_scale_factor splats target_size,
                  splat_y = (splat_y s - spec_center center ?ys) * spec_scale_factor splats target_size,
                  splat_z = (splat_z s - spec_center center ?zs) * spec_scale_factor splats target_size,
                  splat_r = splat_r s, splat_g = splat_g s, splat_b = splat_b s,
                  splat_opacity = splat_opacity s,
                  splat_scale = splat_scale s * spec_scale_factor splats target_size \<rparr>)
            = spec_normalize_one splats target_size center"
    by (intro ext) (simp add: spec_normalize_one_def)
  have cen: "(if center then (Min (set vs) + Max (set vs)) / 2 else 0) = spec_center center vs" for vs
    by (simp add: spec_center_def)
  show ?thesis
    unfolding normalize_splats_def
    by (simp only: assms if_False Let_def py_min_Min [OF ne(1)] py_max_Max [OF ne(1)]
          py_min_Min [OF ne(2)] py_max_Max [OF ne(2)] py_min_Min [OF ne(3)] py_max_Max [OF ne(3)]
          ebind_Inr py_or_range [OF ne(1)] py_or_range [OF ne(2)] py_or_range [OF ne(3)] div cen rec)
qed

subsection \<open>Attribute Decoder\<close>

text \<open>
  Claim C1. The claim is that every splat \<^verbatim>\<open>load_ply\<close> produces has its colour channels
  and its opacity in \<open>[0, 1]\<close> and a non-negative scale. The code does not keep it for a
  file with a NaN field: \<^verbatim>\<open>np.clip\<close>, the logistic function and \<^verbatim>\<open>np.exp\<close> give NaN for
  NaN, so for the table \<open>demo_vertex_nan\<close>, whose point has NaN in the fields
  \<^verbatim>\<open>f_dc_0\<close>, \<^verbatim>\<open>opacity\<close> and \<^verbatim>\<open>scale_1\<close>, \<^verbatim>\<open>load_ply\<close> returns a splat whose r, opacity and
  scale are NaN, and no comparison with NaN holds. (On a table without NaN every splat
  returned is in range: lemma \<open>decoded_in_range_without_nan\<close>.)
\<close>

theorem decoder_passes_nan:
  "load_ply demo_vertex_nan
     = Inr [\<lparr> splat_x = Val 1.5, splat_y = Val (- 2), splat_z = Val 4, splat_r = NaN,
               splat_g = Val 1, splat_b = Val 0, splat_opacity = NaN, splat_scale = NaN \<rparr>]
   \<and> \<not> splat_in_range \<lparr> splat_x = Val 1.5, splat_y = Val (- 2), splat_z = Val 4, splat_r = NaN,
               splat_g = Val 1, splat_b = Val 0, splat_opacity = NaN, splat_scale = NaN \<rparr>
   \<and> \<not> float_le (Val 0) NaN \<and> \<not> float_le NaN (Val 1)"
  by (simp add: load_eval demo_vertex_nan_def splat_in_range_def)

text \<open>
  Claim C5. When the field \<^verbatim>\<open>f_dc_0\<close> is present the spherical-harmonic tier is taken,
  whether or not the 8-bit colour fields are present too: every decoded channel of every
  point is \<open>clamp(0.5 + DC * 0.28209479177387814, 0, 1)\<close> of its DC field, and a DC value of
  0 decodes to exactly 0.5. (The formula is taken element by element as numpy takes it,
  so a NaN field gives NaN.)
\<close>

theorem sh_tier_colour:
  assumes "''f_dc_0'' \<in> set (dtype_names v)" and "load_ply v = Inr splats"
  shows "length splats = length (data v)
     \<and> (\<forall>i<length splats.
           splat_r (splats ! i)
             = np1 (\<lambda>d. spec_clamp (0.5 + d * 0.28209479177387814) 0 1) ((data v ! i) ''f_dc_0'')
         \<and> splat_g (splats ! i)
             = np1 (\<lambda>d. spec_clamp (0.5 + d * 0.28209479177387814) 0 1) ((data v ! i) ''f_dc_1'')
         \<and> splat_b (splats ! i)
             = np1 (\<lambda>d. spec_clamp (0.5 + d * 0.28209479177387814) 0 1) ((data v ! i) ''f_dc_2''))
     \<and> (\<forall>i<length splats. \<forall>d.
           ((data v ! i) ''f_dc_0'' = Val d
              \<longrightarrow> splat_r (splats ! i) = Val (spec_clamp (0.5 + d * 0.28209479177387814) 0 1))
         \<and> ((data v ! i) ''f_dc_1'' = Val d
              \<longrightarrow> splat_g (splats ! i) = Val (spec_clamp (0.5 + d * 0.28209479177387814) 0 1))
         \<and> ((data v ! i) ''f_dc_2'' = Val d
              \<longrightarrow> splat_b (splats ! i) = Val (spec_clamp (0.5 + d * 0.28209479177387814) 0 1)))
     \<and> (\<forall>i<length splats. (data v ! i) ''f_dc_0'' = Val 0 \<longrightarrow> splat_r (splats ! i) = Val 0.5)
     \<and> (\<forall>i<length splats. (data v ! i) ''f_dc_1'' = Val 0 \<longrightarrow> splat_g (splats ! i) = Val 0.5)
     \<and> (\<forall>i<length splats. (data v ! i) ''f_dc_2'' = Val 0 \<longrightarrow> splat_b (splats ! i) = Val 0.5)"
proof -
  from assms(2) have "fields_complete v" by (rule load_ply_Inr_complete)
  with assms(2) have eq: "splats = map (decode_point v) (data v)" by (simp add: load_ply_complete)
  have half: "spec_clamp (0.5 + 0 * 0.28209479177387814) 0 1 = 0.5"
    by (simp add: spec_clamp_def)
  show ?thesis
    using assms(1) half by (simp add: eq decode_point_def point_channel_def)
qed

theorem sh_tier_colour_witness:
  "''f_dc_0'' \<in> set (dtype_names demo_vertex_sh) \<and> ''red'' \<in> set (dtype_names demo_vertex_sh)
   \<and> (data demo_vertex_sh ! 0) ''f_dc_0'' = Val 0 \<and> (data demo_vertex_sh ! 0) ''red'' = Val 255
   \<and> load_ply demo_vertex_sh
       = Inr [\<lparr> splat_x = Val 1.5, splat_y = Val (- 2), splat_z = Val 4, splat_r = Val 0.5,
                 splat_g = Val 1, splat_b = Val 0, splat_opacity = Val 0.5, splat_scale = Val 1 \<rparr>]
   \<and> (\<exists>s. load_ply demo_vertex_sh = Inr [s] \<and> splat_r s = Val 0.5 \<and> splat_g s = Val 1
           \<and> splat_b s = Val 0)"
proof -
  have p: "''f_dc_0'' \<in> set (dtype_names demo_vertex_sh)" "''red'' \<in> set (dtype_names demo_vertex_sh)"
    by (simp_all add: demo_vertex_sh_def)
  have d: "(data demo_vertex_sh ! 0) ''f_dc_0'' = Val 0" "(data demo_vertex_sh ! 0) ''red'' = Val 255"
    by (simp_all add: demo_vertex_sh_def demo_row_def)
  have h: "load_ply demo_vertex_sh
       = Inr [\<lparr> splat_x = Val 1.5, splat_y = Val (- 2), splat_z = Val 4, splat_r = Val 0.5,
                 splat_g = Val 1, splat_b = Val 0, splat_opacity = Val 0.5, splat_scale = Val 1 \<rparr>]"
    by (simp add: load_eval demo_vertex_sh_def)
  from sh_tier_colour [OF p(1) h, THEN conjunct2, THEN conjunct2, THEN conjunct2, THEN conjunct1,
      rule_format, of 0] d(1)
  have "splat_r ([\<lparr> splat_x = Val 1.5, splat_y = Val (- 2), splat_z = Val 4, splat_r = Val 0.5,
                 splat_g = Val 1, splat_b = Val 0, splat_opacity = Val 0.5, splat_scale = Val 1 \<rparr>] ! 0)
          = Val 0.5"
    by simp
  with h have "\<exists>s. load_ply demo_vertex_sh = Inr [s] \<and> splat_r s = Val 0.5 \<and> splat_g s = Val 1
      \<and> splat_b s = Val 0"
    by simp
  with p d h show ?thesis by (intro conjI)
qed

subsection \<open>Normalizer\<close>

text \<open>
  Claim C2. For a non-empty sequence \<^verbatim>\<open>normalize_splats\<close> returns, without any exception
  (no division by zero, also for a single splat or a cloud of coincident splats), the
  sequence of the same length in which every splat is transformed as the specification
  says: with the range of an axis \<open>max - min\<close>, or 1 when that is exactly zero, the scale
  factor \<open>target / max(range_x, range_y, range_z)\<close> and the centre of an axis its midpoint
  when centering is on and 0 otherwise, each coordinate becomes
  \<open>(value - centre) * scale_factor\<close>, the scale is multiplied by the scale factor, and the
  colour and the opacity are unchanged. The empty sequence is returned as it is.
\<close>

theorem normalizer_transform:
  "(splats \<noteq> [] \<longrightarrow>
      normalize_splats splats target_size center
        = Inr (map (spec_normalize_one splats target_size center) splats))
   \<and> normalize_splats [] target_size center = Inr []
   \<and> (\<exists>out. normalize_splats splats target_size center = Inr out \<and> length out = length splats)
   \<and> splat_r (spec_normalize_one splats target_size center s) = splat_r s
   \<and> splat_g (spec_normalize_one splats target_size center s) = splat_g s
   \<and> splat_b (spec_normalize_one splats target_size center s) = splat_b s
   \<and> splat_opacity (spec_normalize_one splats target_size center s) = splat_opacity s"
proof (intro conjI impI)
  assume "splats \<noteq> []"
  then show "normalize_splats splats target_size center
        = Inr (map (spec_normalize_one splats target_size center) splats)"
    by (rule normalize_nonempty)
next
  show "normalize_splats [] target_size center = Inr []"
    by (simp add: normalize_splats_def)
next
  show "\<exists>out. normalize_splats splats target_size center = Inr out \<and> length out = length splats"
  proof (cases "splats = []")
    case True then show ?thesis by (simp add: normalize_splats_def)
  next
    case False then show ?thesis by (simp add: normalize_nonempty)
  qed
qed (simp_all add: spec_normalize_one_def)

theorem normalizer_transform_witness:
  "[demo_a] \<noteq> []
   \<and> normalize_splats [demo_a] 10 True
       = Inr [\<lparr> splat_x = 0, splat_y = 0, splat_z = 0, splat_r = 0.5, splat_g = 1.7, splat_b = - 3,
                 splat_opacity = 0.5, splat_scale = 0.1 \<rparr>]
   \<and> normalize_splats [demo_a] 10 True = Inr (map (spec_normalize_one [demo_a] 10 True) [demo_a])
   \<and> normalize_splats [demo_a, demo_b, demo_c] 10 False
       = Inr [\<lparr> splat_x = 1.25, splat_y = 2.5, splat_z = 3.75, splat_r = 0.5, splat_g = 1.7,
                 splat_b = - 3, splat_opacity = 0.5, splat_scale = 0.0125 \<rparr>,
              \<lparr> splat_x = - 1.25, splat_y = 0, splat_z = 0.078125, splat_r = 0, splat_g = 1,
                 splat_b = 0.25, splat_opacity = 0.9, splat_scale = 0.25 \<rparr>,
              \<lparr> splat_x = 8.75, splat_y = 2.5, splat_z = 3.75, splat_r = 0.5, splat_g = 1.7,
                 splat_b = - 3, splat_opacity = 0.5, splat_scale = 0.0125 \<rparr>]"
proof -
  have n: "[demo_a] \<noteq> []" by simp
  have a: "normalize_splats [demo_a] 10 True
       = Inr [\<lparr> splat_x = 0, splat_y = 0, splat_z = 0, splat_r = 0.5, splat_g = 1.7, splat_b = - 3,
                 splat_opacity = 0.5, splat_scale = 0.1 \<rparr>]"
    by (simp add: normalize_splats_def py_min_def py_max_def py_or_def py_truediv_def demo_defs)
  have b: "normalize_splats [demo_a] 10 True = Inr (map (spec_normalize_one [demo_a] 10 True) [demo_a])"
    using normalizer_transform [of "[demo_a]" 10 True demo_a] n by (simp only: simp_thms)
  have c: "normalize_splats [demo_a, demo_b, demo_c] 10 False
       = Inr [\<lparr> splat_x = 1.25, splat_y = 2.5, splat_z = 3.75, splat_r = 0.5, splat_g = 1.7,
                 splat_b = - 3, splat_opacity = 0.5, splat_scale = 0.0125 \<rparr>,
              \<lparr> splat_x = - 1.25, splat_y = 0, splat_z = 0.078125, splat_r = 0, splat_g = 1,
                 splat_b = 0.25, splat_opacity = 0.9, splat_scale = 0.25 \<rparr>,
              \<lparr> splat_x = 8.75, splat_y = 2.5, splat_z = 3.75, splat_r = 0.5, splat_g = 1.7,
                 splat_b = - 3, splat_opacity = 0.5, splat_scale = 0.0125 \<rparr>]"
    by (simp add: normalize_splats_def py_min_def py_max_def py_or_def py_truediv_def demo_defs)
  from n a b c show ?thesis by (intro conjI)
qed

subsection \<open>Selector\<close>

text \<open>
  Claim C3. For a maximum count \<open>k\<close> with \<open>0 < k < n\<close>, method \<^verbatim>\<open>"opacity"\<close> returns
  exactly \<open>k\<close> splats, sorted by descending opacity; they are splats of the input with
  their attributes unchanged (a sub-multiset of the input); every kept splat has an
  opacity at least that of every dropped one; and among splats of equal opacity the kept
  ones are an initial segment of those of the input, in input order, so the earlier of a
  tied pair is kept first.
\<close>

theorem by_opacity_keeps_k_highest:
  assumes "0 < k" and "k < int (length splats)"
  shows "\<exists>kept. downsample_splats choice splats k ''opacity'' = Inr kept
           \<and> length kept = nat k
           \<and> sorted_wrt (\<lambda>a b. splat_opacity b \<le> splat_opacity a) kept
           \<and> mset kept \<subseteq># mset splats
           \<and> (\<forall>a\<in>set kept. \<forall>b\<in>#(mset splats - mset kept). splat_opacity b \<le> splat_opacity a)
           \<and> (\<forall>v. prefix (filter (\<lambda>s. splat_opacity s = v) kept)
                           (filter (\<lambda>s. splat_opacity s = v) splats))"
proof -
  define zs where "zs = py_sorted splat_opacity True splats"
  define kept where "kept = take (nat k) zs"
  have res: "downsample_splats choice splats k ''opacity'' = Inr kept"
    using assms by (simp add: downsample_splats_def py_slice_to_def kept_def zs_def)
  have len: "length kept = nat k"
    using assms by (simp add: kept_def zs_def length_py_sorted)
  have srt: "sorted_wrt (\<lambda>a b. splat_opacity b \<le> splat_opacity a) zs"
    unfolding zs_def by (rule py_sorted_descending)
  have srt_kept: "sorted_wrt (\<lambda>a b. splat_opacity b \<le> splat_opacity a) kept"
    unfolding kept_def using srt by (rule sorted_wrt_take)
  have split: "mset splats = mset kept + mset (drop (nat k) zs)"
  proof -
    have "mset splats = mset zs" by (simp add: zs_def mset_py_sorted)
    also have "\<dots> = mset (take (nat k) zs @ drop (nat k) zs)" by (simp only: append_take_drop_id)
    finally show ?thesis by (simp only: kept_def mset_append)
  qed
  have sub: "mset kept \<subseteq># mset splats" by (simp add: split)
  have rest: "mset splats - mset kept = mset (drop (nat k) zs)" by (simp add: split)
  have dom: "\<forall>a\<in>set kept. \<forall>b\<in>#(mset splats - mset kept). splat_opacity b \<le> splat_opacity a"
  proof (intro ballI)
    fix a b assume a: "a \<in> set kept" and b: "b \<in># mset splats - mset kept"
    from b have "b \<in> set (drop (nat k) zs)" by (simp only: rest set_mset_mset)
    with a show "splat_opacity b \<le> splat_opacity a"
      unfolding kept_def by (rule take_sorted_dominates [OF srt])
  qed
  have ties: "prefix (filter (\<lambda>s. splat_opacity s = v) kept) (filter (\<lambda>s. splat_opacity s = v) splats)" for v
  proof -
    have "filter (\<lambda>s. splat_opacity s = v) splats = filter (\<lambda>s. splat_opacity s = v) (take (nat k) zs @ drop (nat k) zs)"
      by (simp add: zs_def py_sorted_stable)
    also have "\<dots> = filter (\<lambda>s. splat_opacity s = v) kept @ filter (\<lambda>s. splat_opacity s = v) (drop (nat k) zs)"
      by (simp only: filter_append kept_def)
    finally show ?thesis by (simp add: prefix_def)
  qed
  from res len srt_kept sub dom ties show ?thesis by blast
qed

theorem by_opacity_keeps_k_highest_witness:
  "0 < (2::int) \<and> 2 < int (length [demo_a, demo_b, demo_c])
   \<and> downsample_splats choice_first [demo_a, demo_b, demo_c] 2 ''opacity'' = Inr [demo_b, demo_a]
   \<and> (\<exists>kept. downsample_splats choice_first [demo_a, demo_b, demo_c] 2 ''opacity'' = Inr kept
           \<and> length kept = nat 2
           \<and> sorted_wrt (\<lambda>a b. splat_opacity b \<le> splat_opacity a) kept
           \<and> mset kept \<subseteq># mset [demo_a, demo_b, demo_c]
           \<and> (\<forall>a\<in>set kept. \<forall>b\<in>#(mset [demo_a, demo_b, demo_c] - mset kept). splat_opacity b \<le> splat_opacity a)
           \<and> (\<forall>v. prefix (filter (\<lambda>s. splat_opacity s = v) kept)
                           (filter (\<lambda>s. splat_opacity s = v) [demo_a, demo_b, demo_c])))"
proof -
  have h1: "0 < (2::int)" by simp
  have h2: "2 < int (length [demo_a, demo_b, demo_c])" by simp
  have v: "downsample_splats choice_first [demo_a, demo_b, demo_c] 2 ''opacity'' = Inr [demo_b, demo_a]"
    by (simp add: downsample_splats_def py_sorted_def py_slice_to_def demo_defs)
  from h1 h2 v by_opacity_keeps_k_highest [OF h1 h2, of choice_first] show ?thesis
    by (intro conjI)
qed

text \<open>
  Claim C8. An input whose length is at most the maximum count is returned as it is,
  same order and same values, whatever the method.
\<close>

theorem short_input_unchanged:
  "int (length splats) \<le> max_count \<Longrightarrow> downsample_splats choice splats max_count method = Inr splats"
  by (simp add: downsample_splats_def)

theorem short_input_unchanged_witness:
  "int (length [demo_a, demo_b]) \<le> 2
   \<and> downsample_splats choice_first [demo_a, demo_b] 2 ''opacity'' = Inr [demo_a, demo_b]
   \<and> downsample_splats choice_first [demo_a, demo_b] 2 ''random'' = Inr [demo_a, demo_b]"
proof -
  have h: "int (length [demo_a, demo_b]) \<le> 2" by simp
  show ?thesis
    using h short_input_unchanged [OF h, of choice_first "''opacity''"]
      short_input_unchanged [OF h, of choice_first "''random''"]
    by (intro conjI)
qed

text \<open>
  Claim C9, as stated, fails: \<^verbatim>\<open>downsample_splats\<close> does not check \<^verbatim>\<open>max_count\<close>. With
  method \<^verbatim>\<open>"opacity"\<close> a maximum count of 0 gives the empty list and a maximum count of
  \<open>-1\<close> gives the sorted list without its last element; no exception is raised.
\<close>

theorem nonpositive_count_not_rejected:
  "downsample_splats choice_first [demo_a, demo_b] 0 ''opacity'' = Inr []
   \<and> downsample_splats choice_first [demo_a, demo_b] (- 1) ''opacity'' = Inr [demo_b]
   \<and> downsample_splats choice_first [] 0 ''opacity'' = Inr []"
  by (simp add: downsample_splats_def py_sorted_def py_slice_to_def demo_defs)

text \<open>
  Claim C9, amended. \<^verbatim>\<open>downsample_splats\<close> has no failure of its own and validates
  nothing. With method \<^verbatim>\<open>"opacity"\<close> it returns a list for every input and every maximum
  count, positive or not: the input when it is short enough, else the slice
  \<^verbatim>\<open>sorted_splats[:max_count]\<close>. Whenever it raises, the method is not \<^verbatim>\<open>"opacity"\<close>,
  the input is longer than the maximum count, and the exception is the one raised by
  \<^verbatim>\<open>np.random.choice\<close>, or an IndexError for an index it returned beyond the input.
\<close>

theorem selector_failure_modes:
  "downsample_splats choice splats max_count ''opacity'' =
     Inr (if int (length splats) \<le> max_count then splats
          else py_slice_to (py_sorted splat_opacity True splats) max_count)
   \<and> (\<forall>e. downsample_splats choice splats max_count method = Inl e \<longrightarrow>
          method \<noteq> ''opacity'' \<and> max_count < int (length splats) \<and>
          (choice (length splats) max_count = Inl e
           \<or> (\<exists>idx. choice (length splats) max_count = Inr idx \<and> e = IndexError
                    \<and> (\<exists>i\<in>set idx. length splats \<le> i))))"
proof (intro conjI allI impI)
  show "downsample_splats choice splats max_count ''opacity'' =
     Inr (if int (length splats) \<le> max_count then splats
          else py_slice_to (py_sorted splat_opacity True splats) max_count)"
    by (simp add: downsample_splats_def)
next
  fix e assume f: "downsample_splats choice splats max_count method = Inl e"
  then show "method \<noteq> ''opacity''"
    by (auto simp add: downsample_splats_def split: if_splits)
  from f show "max_count < int (length splats)"
    by (auto simp add: downsample_splats_def split: if_splits)
  from f have r: "ebind (choice (length splats) max_count) (\<lambda>indices. emap (py_getitem splats) indices) = Inl e"
    by (auto simp add: downsample_splats_def split: if_splits)
  show "choice (length splats) max_count = Inl e
           \<or> (\<exists>idx. choice (length splats) max_count = Inr idx \<and> e = IndexError
                    \<and> (\<exists>i\<in>set idx. length splats \<le> i))"
  proof (cases "choice (length splats) max_count")
    case (Inl e') with r show ?thesis by simp
  next
    case (Inr idx)
    with r have m: "emap (py_getitem splats) idx = Inl e" by simp
    have "\<exists>i\<in>set idx. \<not> i < length splats"
    proof (rule ccontr)
      assume "\<not> (\<exists>i\<in>set idx. \<not> i < length splats)"
      then have "\<forall>i\<in>set idx. i < length splats" by blast
      from emap_in_range [OF this] m show False by simp
    qed
    then have ex: "\<exists>i\<in>set idx. length splats \<le> i" by (auto simp add: not_less)
    from emap_out_of_range [OF \<open>\<exists>i\<in>set idx. \<not> i < length splats\<close>] m have "e = IndexError" by simp
    with Inr ex show ?thesis by blast
  qed
qed

theorem selector_failure_modes_witness:
  "downsample_splats choice_first [demo_a, demo_b] (- 1) ''opacity'' = Inr [demo_b]
   \<and> downsample_splats choice_first [demo_a, demo_b] (- 1) ''random'' = Inl ValueError
   \<and> choice_first (length [demo_a, demo_b]) (- 1) = Inl ValueError"
proof -
  have v: "downsample_splats choice_first [demo_a, demo_b] (- 1) ''random'' = Inl ValueError"
    by (simp add: downsample_splats_def choice_first_def)
  have c: "choice_first (length [demo_a, demo_b]) (- 1) = Inl ValueError"
    by (simp add: choice_first_def)
  have "downsample_splats choice_first [demo_a, demo_b] (- 1) ''opacity'' = Inr [demo_b]"
    using selector_failure_modes [of choice_first "[demo_a, demo_b]" "- 1" "''random''"]
    by (simp add: py_sorted_def py_slice_to_def demo_defs)
  with v c show ?thesis by (intro conjI)
qed

text \<open>
  Claim C10. The dispatch is on the exact string \<^verbatim>\<open>"opacity"\<close>. For an input longer than
  the maximum count, every other method value, the policy name \<^verbatim>\<open>"by-opacity"\<close> included,
  takes the sampling path: the result is that of \<^verbatim>\<open>np.random.choice\<close> followed by the
  lookup of the drawn indices, the same as for \<^verbatim>\<open>"random"\<close>; no method name is rejected.
  When the drawn indices are distinct, as a draw without replacement gives them, no splat
  is returned more often than the input has it.
\<close>

theorem unknown_method_samples:
  assumes "method \<noteq> ''opacity''" and "max_count < int (length splats)"
  shows "downsample_splats choice splats max_count method
           = ebind (choice (length splats) max_count) (\<lambda>indices. emap (py_getitem splats) indices)
         \<and> downsample_splats choice splats max_count method
           = downsample_splats choice splats max_count ''random''
         \<and> (\<forall>e. choice (length splats) max_count = Inl e \<longrightarrow>
               downsample_splats choice splats max_count method = Inl e)
         \<and> (\<forall>idx. choice (length splats) max_count = Inr idx \<and> (\<forall>i\<in>set idx. i < length splats) \<longrightarrow>
               downsample_splats choice splats max_count method = Inr (map ((!) splats) idx)
               \<and> (distinct idx \<longrightarrow> mset (map ((!) splats) idx) \<subseteq># mset splats))"
  using assms mset_nths_distinct [of _ splats]
  by (auto simp add: downsample_splats_def emap_in_range simp del: mset_map)

theorem unknown_method_samples_witness:
  "''by-opacity'' \<noteq> ''opacity'' \<and> 2 < int (length [demo_a, demo_b, demo_c])
   \<and> choice_first (length [demo_a, demo_b, demo_c]) 2 = Inr [1, 0]
   \<and> downsample_splats choice_first [demo_a, demo_b, demo_c] 2 ''by-opacity'' = Inr [demo_b, demo_a]
   \<and> downsample_splats choice_first [demo_a, demo_b, demo_c] 2 ''by-opacity''
       = downsample_splats choice_first [demo_a, demo_b, demo_c] 2 ''random''"
proof -
  have h1: "''by-opacity'' \<noteq> ''opacity''" by simp
  have h2: "2 < int (length [demo_a, demo_b, demo_c])" by simp
  have c: "choice_first (length [demo_a, demo_b, demo_c]) 2 = Inr [1, 0]"
    by (simp add: choice_first_def numeral_2_eq_2)
  note t = unknown_method_samples [OF h1 h2, of choice_first]
  have r: "\<forall>i\<in>set [1, 0::nat]. i < length [demo_a, demo_b, demo_c]" by simp
  from t [THEN conjunct2, THEN conjunct2, THEN conjunct2, rule_format, of "[1, 0]"] c r
  have "downsample_splats choice_first [demo_a, demo_b, demo_c] 2 ''by-opacity''
          = Inr (map ((!) [demo_a, demo_b, demo_c]) [1, 0])"
    by blast
  then have v: "downsample_splats choice_first [demo_a, demo_b, demo_c] 2 ''by-opacity'' = Inr [demo_b, demo_a]"
    by simp
  from t [THEN conjunct2, THEN conjunct1]
  have e: "downsample_splats choice_first [demo_a, demo_b, demo_c] 2 ''by-opacity''
       = downsample_splats choice_first [demo_a, demo_b, demo_c] 2 ''random''" .
  from h1 h2 c v e show ?thesis by (intro conjI)
qed

subsection \<open>Command Emitter\<close>

text \<open>
  Claim C4. The emitter produces a line for a splat exactly when the opacity of the splat
  is greater than or equal to the threshold: the lines after the three header lines are
  the command lines of the splats with \<open>min_opacity \<le> opacity\<close>, in input order, and
  these are the lines of the text \<^verbatim>\<open>generate_mcfunction\<close> returns.
\<close>

theorem emitter_threshold:
  "text_lines (generate_mcfunction splats relative min_opacity)
     = [''# Generated by splat2mc'', ''# '' @ str_nat (length splats) @ '' Gaussian splats'', []]
       @ map (line relative) (filter (\<lambda>s. min_opacity \<le> splat_opacity s) splats)
   \<and> emit relative min_opacity splats
     = map (line relative) (filter (\<lambda>s. min_opacity \<le> splat_opacity s) splats)
   \<and> length (text_lines (generate_mcfunction splats relative min_opacity))
     = 3 + length (filter (\<lambda>s. min_opacity \<le> splat_opacity s) splats)"
  by (simp add: text_lines_generate lines_def emit_filter)

theorem emitter_threshold_witness:
  "text_lines (generate_mcfunction [demo_faint, demo_edge, demo_b] True 0.1)
     = [''# Generated by splat2mc'', ''# 3 Gaussian splats'', [],
        line True demo_edge, line True demo_b]
   \<and> emit True 0.1 [demo_faint] = []
   \<and> emit True 0.1 [demo_edge] = [line True demo_edge]"
proof -
  have n: "str_nat (length [demo_faint, demo_edge, demo_b]) = ''3''"
    by (simp add: str_nat.simps digit_char_def)
  have f: "filter (\<lambda>s. 0.1 \<le> splat_opacity s) [demo_faint, demo_edge, demo_b] = [demo_edge, demo_b]"
    by (simp add: demo_defs)
  have "text_lines (generate_mcfunction [demo_faint, demo_edge, demo_b] True 0.1)
     = [''# Generated by splat2mc'', ''# 3 Gaussian splats'', [],
        line True demo_edge, line True demo_b]"
    using emitter_threshold [of "[demo_faint, demo_edge, demo_b]" True "0.1"]
    by (simp only: n f) simp
  moreover have "emit True 0.1 [demo_faint] = []" by (simp add: demo_defs)
  moreover have "emit True 0.1 [demo_edge] = [line True demo_edge]" by (simp add: demo_defs)
  ultimately show ?thesis by (intro conjI)
qed

text \<open>
  Claim C6. The render-scale of a splat is \<open>clamp(scale * 50, 0.1, 4.0)\<close>, the product
  taken first and clamped afterwards; it lies in \<open>[0.1, 4.0]\<close>; and it is the value the
  command line of the splat carries, with two decimal digits, in the scale field of its
  parameter block. Every emitted line is the command line of a splat of the input.
\<close>

theorem render_scale_clamped:
  "particle_scale s = spec_clamp (splat_scale s * 50) 0.1 4.0
   \<and> 0.1 \<le> particle_scale s \<and> particle_scale s \<le> 4.0
   \<and> (\<exists>before after. line relative s
          = before @ ''scale:'' @ py_format_f 2 (spec_clamp (splat_scale s * 50) 0.1 4.0) @ ''}'' @ after)
   \<and> set (emit relative min_opacity splats) \<subseteq> line relative ` set splats"
proof (intro conjI)
  show "particle_scale s = spec_clamp (splat_scale s * 50) 0.1 4.0" by (rule particle_scale_clamp)
  show "0.1 \<le> particle_scale s" by (simp add: particle_scale_def)
  show "particle_scale s \<le> 4.0" by (simp add: particle_scale_def)
  have "line relative s
      = (''particle dust{color:['' @ py_format_f 3 (max 0 (min 1 (splat_r s))) @ '',''
          @ py_format_f 3 (max 0 (min 1 (splat_g s))) @ '','' @ py_format_f 3 (max 0 (min 1 (splat_b s))) @ ''],'')
        @ ''scale:'' @ py_format_f 2 (spec_clamp (splat_scale s * 50) 0.1 4.0) @ ''}''
        @ ('' '' @ pos relative s @ '' 0 0 0 0 1 force'')"
    by (simp add: line_def Let_def particle_scale_clamp)
  then show "\<exists>before after. line relative s
          = before @ ''scale:'' @ py_format_f 2 (spec_clamp (splat_scale s * 50) 0.1 4.0) @ ''}'' @ after"
    by blast
  show "set (emit relative min_opacity splats) \<subseteq> line relative ` set splats"
    by (auto simp add: emit_filter)
qed

theorem render_scale_clamped_witness:
  "particle_scale demo_a = 0.5 \<and> particle_scale demo_b = 4.0 \<and> particle_scale demo_edge = 0.1
   \<and> spec_clamp (splat_scale demo_b * 50) 0.1 4.0 = 4.0
   \<and> spec_clamp (splat_scale demo_edge * 50) 0.1 4.0 = 0.1
   \<and> py_format_f 2 (particle_scale demo_edge) = ''0.10''"
proof -
  have a: "particle_scale demo_a = 0.5"
    using render_scale_clamped [of demo_a True 0 "[]"] by (simp add: spec_clamp_def demo_defs)
  have b: "particle_scale demo_b = 4.0"
    using render_scale_clamped [of demo_b True 0 "[]"] by (simp add: spec_clamp_def demo_defs)
  have e: "particle_scale demo_edge = 0.1"
    using render_scale_clamped [of demo_edge True 0 "[]"] by (simp add: spec_clamp_def demo_defs)
  have f: "py_format_f 2 (particle_scale demo_edge) = ''0.10''"
    by (subst e) (simp add: fmt_eval)
  have cb: "spec_clamp (splat_scale demo_b * 50) 0.1 4.0 = 4.0"
    and ce: "spec_clamp (splat_scale demo_edge * 50) 0.1 4.0 = 0.1"
    by (simp_all add: spec_clamp_def demo_defs)
  from a b e cb ce f show ?thesis by (intro conjI)
qed

text \<open>
  Claim C7, as stated, fails. The claim lists, after the position, three zero velocity
  components, a spread value of 1 and the force token; the line the code emits has four
  zero components before the 1. For the splat \<open>demo_a\<close> in relative mode the emitted line
  and the line assembled from the listed parts differ in that one token.
\<close>

theorem line_differs_from_listed_parts:
  "line True demo_a
     = ''particle dust{color:[0.500,1.000,0.000],scale:0.50} ~1.000 ~2.000 ~3.000 0 0 0 0 1 force''
   \<and> spec_line True demo_a
     = ''particle dust{color:[0.500,1.000,0.000],scale:0.50} ~1.000 ~2.000 ~3.000 0 0 0 1 force''
   \<and> line True demo_a \<noteq> spec_line True demo_a"
proof -
  have f: "py_format_f 3 (1/2) = ''0.500''" "py_format_f 3 1 = ''1.000''" "py_format_f 3 0 = ''0.000''"
    "py_format_f 3 2 = ''2.000''" "py_format_f 3 3 = ''3.000''" "py_format_f 2 (1/2) = ''0.50''"
    by (simp_all add: fmt_eval)
  have l: "line True demo_a
     = ''particle dust{color:[0.500,1.000,0.000],scale:0.50} ~1.000 ~2.000 ~3.000 0 0 0 0 1 force''"
    by (simp add: line_def pos_def particle_scale_def demo_defs f)
  have s: "spec_line True demo_a
     = ''particle dust{color:[0.500,1.000,0.000],scale:0.50} ~1.000 ~2.000 ~3.000 0 0 0 1 force''"
    by (simp add: spec_line_def spec_parameter_block_def spec_position_def spec_clamp_def demo_defs f)
  have "line True demo_a \<noteq> spec_line True demo_a"
    by (simp add: l s)
  with l s show ?thesis by (intro conjI)
qed

text \<open>
  Claim C7, amended. Every command line is, in order: the token \<^verbatim>\<open>particle dust\<close>; the
  parameter block with the three clamped colour channels and the render-scale; the
  position, in offset notation (\<^verbatim>\<open>~\<close> before each coordinate) in relative mode and
  plain in absolute mode; three zero offset components and a zero speed; a count of 1;
  the token \<^verbatim>\<open>force\<close>. Split at the spaces it has eleven tokens, the last six being
  \<^verbatim>\<open>0 0 0 0 1 force\<close>. A number formatted with 3 (with 2) places is an optional minus
  sign, a non-empty run of digits, a point and exactly 3 (exactly 2) digits. The line is
  a function of the splat and the mode, so it is the same text whenever they are.
\<close>

theorem line_grammar:
  "line relative s
     = ''particle dust'' @ spec_parameter_block s @ '' '' @ spec_position relative s
         @ '' 0 0 0'' @ '' 0'' @ '' 1'' @ '' force''
   \<and> tokens (line relative s) =
     [''particle'', ''dust'' @ spec_parameter_block s,
      (if relative then ''~'' else []) @ py_format_f 3 (splat_x s),
      (if relative then ''~'' else []) @ py_format_f 3 (splat_y s),
      (if relative then ''~'' else []) @ py_format_f 3 (splat_z s),
      ''0'', ''0'', ''0'', ''0'', ''1'', ''force'']
   \<and> (\<exists>ip fp. py_format_f 3 w = (if w < 0 then ''-'' else []) @ ip @ ''.'' @ fp
           \<and> ip \<noteq> [] \<and> decimal_digits ip \<and> length fp = 3 \<and> decimal_digits fp)
   \<and> (\<exists>ip fp. py_format_f 2 w = (if w < 0 then ''-'' else []) @ ip @ ''.'' @ fp
           \<and> ip \<noteq> [] \<and> decimal_digits ip \<and> length fp = 2 \<and> decimal_digits fp)"
proof (intro conjI)
  show "line relative s
     = ''particle dust'' @ spec_parameter_block s @ '' '' @ spec_position relative s
         @ '' 0 0 0'' @ '' 0'' @ '' 1'' @ '' force''"
    by (simp add: line_spec_parts)
  show "tokens (line relative s) =
     [''particle'', ''dust'' @ spec_parameter_block s,
      (if relative then ''~'' else []) @ py_format_f 3 (splat_x s),
      (if relative then ''~'' else []) @ py_format_f 3 (splat_y s),
      (if relative then ''~'' else []) @ py_format_f 3 (splat_z s),
      ''0'', ''0'', ''0'', ''0'', ''1'', ''force'']"
    by (rule line_tokens)
  show "\<exists>ip fp. py_format_f 3 w = (if w < 0 then ''-'' else []) @ ip @ ''.'' @ fp
           \<and> ip \<noteq> [] \<and> decimal_digits ip \<and> length fp = 3 \<and> decimal_digits fp"
    by (rule py_format_f_shape) simp
  show "\<exists>ip fp. py_format_f 2 w = (if w < 0 then ''-'' else []) @ ip @ ''.'' @ fp
           \<and> ip \<noteq> [] \<and> decimal_digits ip \<and> length fp = 2 \<and> decimal_digits fp"
    by (rule py_format_f_shape) simp
qed

theorem line_grammar_witness:
  "line False demo_edge
     = ''particle dust{color:[1.000,0.200,0.999],scale:0.10} 0.188 -2.500 10.000 0 0 0 0 1 force''
   \<and> tokens (line False demo_edge)
     = [''particle'', ''dust{color:[1.000,0.200,0.999],scale:0.10}'', ''0.188'', ''-2.500'',
        ''10.000'', ''0'', ''0'', ''0'', ''0'', ''1'', ''force'']"
proof -
  have f: "py_format_f 3 1 = ''1.000''" "py_format_f 3 (1/5) = ''0.200''"
    "py_format_f 3 (999/1000) = ''0.999''" "py_format_f 2 (1/10) = ''0.10''"
    "py_format_f 3 (3/16) = ''0.188''" "py_format_f 3 (- (5/2)) = ''-2.500''"
    "py_format_f 3 10 = ''10.000''"
    by (simp_all add: fmt_eval)
  have b: "spec_parameter_block demo_edge = ''{color:[1.000,0.200,0.999],scale:0.10}''"
    by (simp add: spec_parameter_block_def spec_clamp_def demo_defs f)
  have p: "spec_position False demo_edge = ''0.188 -2.500 10.000''"
    by (simp add: spec_position_def demo_defs f)
  have x: "splat_x demo_edge = 3/16" "splat_y demo_edge = - (5/2)" "splat_z demo_edge = 10"
    by (simp_all add: demo_defs)
  note g = line_grammar [of False demo_edge 0]
  from g [THEN conjunct1]
  have l: "line False demo_edge
     = ''particle dust{color:[1.000,0.200,0.999],scale:0.10} 0.188 -2.500 10.000 0 0 0 0 1 force''"
    by (simp add: b p)
  from g [THEN conjunct2, THEN conjunct1]
  have t: "tokens (line False demo_edge)
     = [''particle'', ''dust{color:[1.000,0.200,0.999],scale:0.10}'', ''0.188'', ''-2.500'',
        ''10.000'', ''0'', ''0'', ''0'', ''0'', ''1'', ''force'']"
    by (simp add: b x f)
  from l t show ?thesis by (intro conjI)
qed

end
